theory Spec2Isabelle
  imports Main "HOL-Library.AList"
begin

section \<open>JavaScript values\<close>

text \<open>
  The values the logger handles: \<open>undefined\<close>, \<open>null\<close>, booleans, strings, plain objects
  and error objects. A plain object is an association list read through \<open>map_of\<close> (the
  order of the entries carries no meaning); an error object has a name, a message, a stack
  and an optional cause.
\<close>

datatype jsval =
    VUndefined
  | VNull
  | VBool bool
  | VStr string
  | VObj "(string \<times> jsval) list"
  | VErr string string string "jsval option"

type_synonym fields = "(string \<times> jsval) list"

text \<open>Truthiness, as \<open>!x\<close>, \<open>x || y\<close> and \<open>if (x)\<close> read it.\<close>

fun truthy :: "jsval \<Rightarrow> bool" where
  "truthy VUndefined = False"
| "truthy VNull = False"
| "truthy (VBool b) = b"
| "truthy (VStr s) = (s \<noteq> [])"
| "truthy (VObj fs) = True"
| "truthy (VErr n m s c) = True"

definition js_or :: "jsval \<Rightarrow> jsval \<Rightarrow> jsval" where
  "js_or a b = (if truthy a then a else b)"

definition nullish :: "jsval \<Rightarrow> bool" where
  "nullish v = (v = VUndefined \<or> v = VNull)"

definition nullish_or :: "jsval \<Rightarrow> jsval \<Rightarrow> jsval" where
  "nullish_or a b = (if nullish a then b else a)"

text \<open>Reading a property of an object: an absent key reads as \<open>undefined\<close>.\<close>

definition obj_get :: "fields \<Rightarrow> string \<Rightarrow> jsval" where
  "obj_get fs k = (case map_of fs k of None \<Rightarrow> VUndefined | Some v \<Rightarrow> v)"

text \<open>
  \<open>v.k\<close> on a value that is not \<open>undefined\<close> or \<open>null\<close> (every use in the source is
  guarded by \<open>v &&\<close> or \<open>v?.\<close>): a primitive has none of the keys the logger reads.
\<close>

fun js_prop :: "jsval \<Rightarrow> string \<Rightarrow> jsval" where
  "js_prop (VObj fs) k = obj_get fs k"
| "js_prop (VErr n m s c) k =
     (if k = ''name'' then VStr n
      else if k = ''message'' then VStr m
      else if k = ''stack'' then VStr s
      else if k = ''cause'' then (case c of None \<Rightarrow> VUndefined | Some v \<Rightarrow> v)
      else VUndefined)"
| "js_prop v k = VUndefined"

text \<open>\<open>v?.k\<close>\<close>

definition opt_chain :: "jsval \<Rightarrow> string \<Rightarrow> jsval" where
  "opt_chain v k = (if nullish v then VUndefined else js_prop v k)"

text \<open>
  \<open>new Error(message)\<close> and the \<open>TypeError\<close> the runtime throws. The stack is the
  header line; the frame lines the runtime appends to it are not modelled.
\<close>

definition new_Error :: "string \<Rightarrow> jsval" where
  "new_Error m = VErr ''Error'' m (''Error: '' @ m) None"

definition new_TypeError :: "string \<Rightarrow> jsval" where
  "new_TypeError m = VErr ''TypeError'' m (''TypeError: '' @ m) None"

definition has_key :: "fields \<Rightarrow> string \<Rightarrow> bool" where
  "has_key fs k = (map_of fs k \<noteq> None)"

text \<open>
  The string a template literal \<open>`${v}`\<close> inserts, or the value it throws (\<open>Inl\<close>). A
  plain object is converted through its \<open>toString\<close>: the inherited one gives
  \<open>[object Object]\<close>, while an own \<open>toString\<close> property that is no function (no value of
  this model is one) leaves no way to a primitive, and the conversion throws a
  \<open>TypeError\<close>. An error prints as \<open>name: message\<close> (one of the two alone when the other
  is empty).
\<close>

fun to_string :: "jsval \<Rightarrow> jsval + string" where
  "to_string VUndefined = Inr ''undefined''"
| "to_string VNull = Inr ''null''"
| "to_string (VBool b) = Inr (if b then ''true'' else ''false'')"
| "to_string (VStr s) = Inr s"
| "to_string (VObj fs) =
     (if has_key fs ''toString''
      then Inl (new_TypeError ''Cannot convert object to primitive value'')
      else Inr ''[object Object]'')"
| "to_string (VErr n m s c) =
     Inr (if n = [] then m else if m = [] then n else n @ '': '' @ m)"

text \<open>\<open>Object.assign(target, source)\<close>: the keys of the source overwrite the target's.\<close>

definition Object_assign :: "fields \<Rightarrow> fields \<Rightarrow> fields" where
  "Object_assign target source = AList.merge target source"

text \<open>\<open>o.k = v\<close>\<close>

definition obj_set :: "string \<Rightarrow> jsval \<Rightarrow> fields \<Rightarrow> fields" where
  "obj_set k v fs = AList.update k v fs"

section \<open>Sinks and the backend logger\<close>

text \<open>
  The transports the source constructs: \<open>new transports.Console()\<close>, the console of the
  third variant with \<open>format.simple()\<close>, \<open>new transports.File({filename})\<close>,
  \<open>new transports.Http({host, path, ssl})\<close>, and \<open>new transports.Stream\<close> on a write
  stream to a path. \<open>Custom\<close> stands for a transport the caller built.
\<close>

datatype transport =
    Console
  | ConsoleSimple
  | File jsval
  | Http string string bool
  | Stream string
  | Custom nat

datatype log_format = FORMAT_JSON | FORMAT_SIMPLE | DevFormat

text \<open>The configuration object handed to \<open>createLogger\<close>.\<close>

record winston_logger =
  lg_level :: jsval
  exitOnError :: bool
  lg_format :: log_format
  defaultMeta :: fields
  lg_transports :: "transport list"

text \<open>The logger object: \<open>this.logger\<close>, \<open>this.processName\<close>, \<open>this.classProcessName\<close>.\<close>

record logger_obj =
  logger :: winston_logger
  processName :: jsval
  classProcessName :: jsval

text \<open>
  Constructing a transport is an effect. The world is the list of transports constructed
  so far, oldest first; every \<open>new transports.X\<close> appends to it.
\<close>

type_synonym world = "transport list"

definition construct :: "transport \<Rightarrow> world \<Rightarrow> transport option \<times> world" where
  "construct t w = (Some t, w @ [t])"

text \<open>\<open>_.compact\<close>: the falsy entries (\<open>undefined\<close>, \<open>null\<close>, here \<open>None\<close>) are dropped.\<close>

fun compact :: "'a option list \<Rightarrow> 'a list" where
  "compact [] = []"
| "compact (None # xs) = compact xs"
| "compact (Some x # xs) = x # compact xs"

section \<open>Construction\<close>

text \<open>
  \<open>validateMetadata\<close> is the same in all three variants, \<open>buildMetadataConfig\<close> in the
  first two. A thrown value is \<open>Inl\<close>.
\<close>

definition validateMetadata :: "fields \<Rightarrow> jsval + unit" where
  "validateMetadata metadata =
     (if \<not> truthy (obj_get metadata ''service'') \<or> \<not> truthy (obj_get metadata ''environment'')
      then Inl (new_Error
        ''No service or environment configured when initializing the logger class.'')
      else Inr ())"

definition buildMetadataConfig :: "fields \<Rightarrow> fields" where
  "buildMetadataConfig metadata =
     Object_assign (Object_assign [] metadata)
       [(''service'', obj_get metadata ''service''),
        (''environment'', obj_get metadata ''environment'')]"

text \<open>
  The third variant names the service \<open>service-environment\<close>, by a template literal,
  which throws when one of the two has no string form.
\<close>

definition buildMetadataConfig_v3 :: "fields \<Rightarrow> jsval + fields" where
  "buildMetadataConfig_v3 metadata =
     (case to_string (obj_get metadata ''service'') of
        Inl err \<Rightarrow> Inl err
      | Inr service \<Rightarrow>
          (case to_string (obj_get metadata ''environment'') of
             Inl err \<Rightarrow> Inl err
           | Inr environment \<Rightarrow>
               Inr (Object_assign (Object_assign [] metadata)
                      [(''service'', VStr (service @ ''-'' @ environment))])))"

text \<open>
  The transport selectors of the first variant. The second variant has the same console,
  file and remote selectors and no null sink; the third shares the file selector.
\<close>

definition enableConsoleTransport :: "fields \<Rightarrow> world \<Rightarrow> transport option \<times> world" where
  "enableConsoleTransport metadata w =
     (if obj_get metadata ''environment'' = VStr ''test'' then (None, w)
      else construct Console w)"

definition enableFileTransport :: "jsval \<Rightarrow> world \<Rightarrow> transport option \<times> world" where
  "enableFileTransport options w =
     (if truthy options \<and> truthy (js_prop options ''filename'')
      then construct (File (js_prop options ''filename'')) w
      else (None, w))"

text \<open>The path of the remote sink, a template literal over the API key and the service.\<close>

definition datadog_path :: "jsval \<Rightarrow> jsval \<Rightarrow> jsval + string" where
  "datadog_path key service =
     (case to_string key of
        Inl err \<Rightarrow> Inl err
      | Inr k \<Rightarrow>
          (case to_string service of
             Inl err \<Rightarrow> Inl err
           | Inr s \<Rightarrow> Inr (''/v1/input/'' @ k @ ''?ddsource=nodejs&service='' @ s)))"

definition enableDatadogTransport ::
  "jsval \<Rightarrow> fields \<Rightarrow> world \<Rightarrow> jsval + transport option \<times> world" where
  "enableDatadogTransport options metadata w =
     (if obj_get metadata ''environment'' = VStr ''test'' then Inr (None, w)
      else if truthy options \<and> truthy (js_prop options ''datadog_api_key'')
      then (case datadog_path (js_prop options ''datadog_api_key'')
                   (obj_get metadata ''service'') of
              Inl err \<Rightarrow> Inl err
            | Inr path \<Rightarrow>
                Inr (construct (Http ''http-intake.logs.datadoghq.com'' path True) w))
      else Inr (None, w))"

definition enableDevNullTransport :: "fields \<Rightarrow> world \<Rightarrow> transport option \<times> world" where
  "enableDevNullTransport metadata w =
     (if obj_get metadata ''environment'' = VStr ''test'' then construct (Stream ''/dev/null'') w
      else (None, w))"

text \<open>The selectors of the third variant: the console and the remote sink ignore the environment.\<close>

definition enableConsoleTransport_v3 :: "jsval \<Rightarrow> world \<Rightarrow> transport option \<times> world" where
  "enableConsoleTransport_v3 options w = construct ConsoleSimple w"

definition enableDatadogTransport_v3 ::
  "jsval \<Rightarrow> fields \<Rightarrow> world \<Rightarrow> jsval + transport option \<times> world" where
  "enableDatadogTransport_v3 options metadata w =
     (if truthy options \<and> truthy (js_prop options ''datadog_api_key'')
      then (case datadog_path (js_prop options ''datadog_api_key'')
                   (obj_get metadata ''service'') of
              Inl err \<Rightarrow> Inl err
            | Inr path \<Rightarrow>
                Inr (construct (Http ''http-intake.logs.datadoghq.com'' path True) w))
      else Inr (None, w))"

text \<open>\<open>initializeLogger\<close> of the three variants.\<close>

definition initializeLogger_v1 ::
  "jsval \<Rightarrow> fields \<Rightarrow> transport option list \<Rightarrow> world \<Rightarrow> winston_logger \<times> world" where
  "initializeLogger_v1 options metadata customTransports w =
     (let logFormat = (if obj_get metadata ''environment'' = VStr ''dev''
                       then DevFormat else FORMAT_JSON);
          (c, w1) = enableConsoleTransport metadata w;
          (d, w2) = enableDevNullTransport metadata w1
      in (\<lparr>lg_level = nullish_or (opt_chain options ''level'') (VStr ''info''),
           exitOnError = False,
           lg_format = logFormat,
           defaultMeta = metadata,
           lg_transports = compact ([c, d] @ customTransports)\<rparr>, w2))"

definition initializeLogger_v2 ::
  "jsval \<Rightarrow> fields \<Rightarrow> transport option list \<Rightarrow> world \<Rightarrow> winston_logger \<times> world" where
  "initializeLogger_v2 options metadata customTransports w =
     (let logFormat = (if obj_get metadata ''environment'' = VStr ''dev''
                       then FORMAT_SIMPLE else FORMAT_JSON);
          (c, w1) = enableConsoleTransport metadata w
      in (\<lparr>lg_level = VStr ''info'',
           exitOnError = False,
           lg_format = logFormat,
           defaultMeta = metadata,
           lg_transports = compact ([c] @ customTransports)\<rparr>, w1))"

text \<open>
  In the third variant the remote selector can throw, after the console sink was
  constructed: the result is the thrown value and the world as it stands then.
\<close>

definition initializeLogger_v3 ::
  "jsval \<Rightarrow> fields \<Rightarrow> transport option list \<Rightarrow> world \<Rightarrow> (jsval + winston_logger) \<times> world" where
  "initializeLogger_v3 options metadata customTransports w =
     (let (c, w1) = enableConsoleTransport_v3 options w
      in case enableDatadogTransport_v3 options metadata w1 of
           Inl err \<Rightarrow> (Inl err, w1)
         | Inr (d, w2) \<Rightarrow>
             (let (f, w3) = enableFileTransport options w2
              in (Inr \<lparr>lg_level = VStr ''info'',
                       exitOnError = False,
                       lg_format = FORMAT_JSON,
                       defaultMeta = metadata,
                       lg_transports = compact ([c, d, f] @ customTransports)\<rparr>, w3)))"

text \<open>
  The constructor: validate, build the base metadata, create the backend logger. A throw,
  of \<open>validateMetadata\<close> or, in the third variant, of a template literal, leaves the
  constructor at once.
\<close>

definition new_Logger_v1 ::
  "fields \<Rightarrow> jsval \<Rightarrow> transport option list \<Rightarrow> world \<Rightarrow> (jsval + logger_obj) \<times> world" where
  "new_Logger_v1 metadata options customTransports w =
     (case validateMetadata metadata of
        Inl err \<Rightarrow> (Inl err, w)
      | Inr _ \<Rightarrow>
          (let (lg, w') = initializeLogger_v1 options (buildMetadataConfig metadata)
                            customTransports w
           in (Inr \<lparr>logger = lg, processName = VUndefined, classProcessName = VUndefined\<rparr>, w')))"

definition new_Logger_v2 ::
  "fields \<Rightarrow> jsval \<Rightarrow> transport option list \<Rightarrow> world \<Rightarrow> (jsval + logger_obj) \<times> world" where
  "new_Logger_v2 metadata options customTransports w =
     (case validateMetadata metadata of
        Inl err \<Rightarrow> (Inl err, w)
      | Inr _ \<Rightarrow>
          (let (lg, w') = initializeLogger_v2 options (buildMetadataConfig metadata)
                            customTransports w
           in (Inr \<lparr>logger = lg, processName = VUndefined, classProcessName = VUndefined\<rparr>, w')))"

definition new_Logger_v3 ::
  "fields \<Rightarrow> jsval \<Rightarrow> transport option list \<Rightarrow> world \<Rightarrow> (jsval + logger_obj) \<times> world" where
  "new_Logger_v3 metadata options customTransports w =
     (case validateMetadata metadata of
        Inl err \<Rightarrow> (Inl err, w)
      | Inr _ \<Rightarrow>
          (case buildMetadataConfig_v3 metadata of
             Inl err \<Rightarrow> (Inl err, w)
           | Inr md \<Rightarrow>
               (case initializeLogger_v3 options md customTransports w of
                  (Inl err, w') \<Rightarrow> (Inl err, w')
                | (Inr lg, w') \<Rightarrow>
                    (Inr \<lparr>logger = lg, processName = VUndefined,
                          classProcessName = VUndefined\<rparr>, w'))))"

section \<open>The flow context\<close>

text \<open>
  The state of the context store is \<open>httpContext.ns.active\<close>, one property of the one
  namespace object of the process: \<open>None\<close> when no context is active, else the key/value
  store of the active one. The model is the store as the logger's own methods drive it,
  with no middleware installed: nothing but \<open>createContext\<close> assigns \<open>ns.active\<close>, and
  nothing exits the context it assigns, so every later call reads and writes that context,
  whichever flow makes the call. A flow is then the sequence of the calls it makes, and an
  interleaving of two flows is the order in which their calls reach the store.
\<close>

type_synonym ns_active = "fields option"

text \<open>
  Modelled from the spec: \<open>httpContext.set\<close> (package express-http-context, not under
  src/), the write of section 4.1: \<open>set(key, value)\<close> writes into the context active for the
  current flow; with no active context there is nothing to write into.
\<close>

definition httpContext_set :: "string \<Rightarrow> jsval \<Rightarrow> ns_active \<Rightarrow> ns_active" where
  "httpContext_set k v ns = (case ns of None \<Rightarrow> None | Some c \<Rightarrow> Some (obj_set k v c))"

text \<open>
  Modelled from the spec: \<open>httpContext.get\<close> (express-http-context, not under src/), the
  read of section 4.1: the value visible in the active context, or \<open>undefined\<close>.
\<close>

definition httpContext_get :: "string \<Rightarrow> ns_active \<Rightarrow> jsval" where
  "httpContext_get k ns = (case ns of None \<Rightarrow> VUndefined | Some c \<Rightarrow> obj_get c k)"

text \<open>
  \<open>createContext\<close>, \<open>setLogId\<close>, \<open>getLogId\<close>, \<open>setUserId\<close>, \<open>getUserId\<close>: the same in
  all variants. \<open>createContext\<close> creates a context only when none is active, and assigns it
  to \<open>ns.active\<close> directly.
\<close>

definition createContext :: "ns_active \<Rightarrow> ns_active" where
  "createContext ns = (case ns of None \<Rightarrow> Some [] | Some c \<Rightarrow> Some c)"

definition setLogId :: "jsval \<Rightarrow> ns_active \<Rightarrow> ns_active" where
  "setLogId logId ns = httpContext_set ''logId'' logId (createContext ns)"

definition getLogId :: "ns_active \<Rightarrow> jsval" where
  "getLogId ns = httpContext_get ''logId'' ns"

definition setUserId :: "jsval \<Rightarrow> ns_active \<Rightarrow> ns_active" where
  "setUserId userId ns = httpContext_set ''userId'' userId (createContext ns)"

definition getUserId :: "ns_active \<Rightarrow> jsval" where
  "getUserId ns = httpContext_get ''userId'' ns"

definition setProcess :: "jsval \<Rightarrow> logger_obj \<Rightarrow> logger_obj" where
  "setProcess name self = self\<lparr>processName := name\<rparr>"

section \<open>Dispatch to the backend\<close>

text \<open>The record handed to the sinks: level, message, the merged fields, and the sinks it goes to.\<close>

record log_record =
  rec_level :: string
  rec_message :: jsval
  rec_fields :: fields
  rec_sinks :: "transport list"

text \<open>
  Modelled from the spec: the backend logger (package winston, not under src/). Sections 3,
  4.5 and 6: a call \<open>logger[level](message, fields)\<close> builds one record carrying the level,
  the message, and the base metadata overlaid with the per-call fields (the later merge), and
  hands it to every active sink; without per-call fields the record carries the base
  metadata alone. The level methods are those of the package's default level set, which
  holds the four severities of section 4.5; any other name is not a level method, and
  calling it throws a \<open>TypeError\<close>. Filtering by minimum level and the sinks' formatting
  and I/O are not modelled.
\<close>

definition winston_levels :: "string list" where
  "winston_levels = [''error'', ''warn'', ''info'', ''http'', ''verbose'', ''debug'', ''silly'']"

text \<open>
  Modelled from the spec: \<open>this.logger[level](message, fields)\<close> (winston, not under src/),
  as described above; \<open>Inl\<close> is the \<open>TypeError\<close> of calling what is not a function.
\<close>

definition logger_call ::
  "winston_logger \<Rightarrow> string \<Rightarrow> jsval \<Rightarrow> fields option \<Rightarrow> jsval + log_record" where
  "logger_call lg level message meta =
     (if level \<in> set winston_levels
      then Inr \<lparr>rec_level = level,
                rec_message = message,
                rec_fields = (case meta of None \<Rightarrow> defaultMeta lg
                              | Some m \<Rightarrow> Object_assign (Object_assign [] (defaultMeta lg)) m),
                rec_sinks = lg_transports lg\<rparr>
      else Inl (VErr ''TypeError'' ''this.logger[level] is not a function''
                  ''TypeError: this.logger[level] is not a function'' None))"

section \<open>Error normalisation\<close>

text \<open>
  Modelled from the spec: \<open>serializeError\<close> (package serialize-error, not under src/).
  Section 4.4: an error-shaped value becomes a plain structure exposing \<open>message\<close>,
  \<open>name\<close> and \<open>stack\<close>, with the \<open>cause\<close> chain unwrapped recursively; the spec names no
  change to any other value.
\<close>

fun serializeError :: "jsval \<Rightarrow> jsval" where
  "serializeError (VErr n m s c) =
     VObj ([(''name'', VStr n), (''message'', VStr m), (''stack'', VStr s)] @
           (case c of None \<Rightarrow> [] | Some v \<Rightarrow> [(''cause'', serializeError v)]))"
| "serializeError v = v"

definition LOCAL_DEV_ENVIRONMENT :: string where
  "LOCAL_DEV_ENVIRONMENT = ''DEV''"

text \<open>\<open>parseMetadata\<close> (first variant only).\<close>

definition parseMetadata :: "logger_obj \<Rightarrow> jsval \<Rightarrow> string \<Rightarrow> jsval" where
  "parseMetadata self opts level =
     (let environment = obj_get (defaultMeta (logger self)) ''environment''
      in if level \<noteq> ''error'' \<or> environment = VStr LOCAL_DEV_ENVIRONMENT then opts
         else serializeError opts)"

section \<open>doLog\<close>

text \<open>
  The enumerable own properties \<open>Object.assign\<close> copies out of a source value: the entries
  of a plain object; none for \<open>undefined\<close>, \<open>null\<close>, a boolean, or an error (whose name,
  message and stack are not enumerable). The index properties of a string are not modelled.
\<close>

fun own_fields :: "jsval \<Rightarrow> fields" where
  "own_fields (VObj fs) = fs"
| "own_fields v = []"

text \<open>
  First variant. The body of the \<open>try\<close> block is \<open>doLog_try_v1\<close>: \<open>Inl\<close> is a thrown
  value, be it the explicit \<open>throw\<close>, the \<open>TypeError\<close> of the template literal that builds
  \<open>msg\<close> (the process name is converted first, then the message), or what the backend call
  throws. \<open>doLog_v1\<close> adds the \<open>catch\<close>, which logs \<open>err.message\<close> at the same level.
\<close>

definition doLog_try_v1 ::
  "ns_active \<Rightarrow> logger_obj \<Rightarrow> string \<Rightarrow> jsval \<Rightarrow> jsval \<Rightarrow> jsval + log_record" where
  "doLog_try_v1 ns self level message opts =
     (let logId = js_or (getLogId ns) VNull;
          userId = js_or (getUserId ns) VNull
      in if \<not> truthy (processName self)
         then Inl (new_Error ''No process name set on logger'')
         else
           (case to_string (processName self) of
              Inl err \<Rightarrow> Inl err
            | Inr p \<Rightarrow>
                (case to_string message of
                   Inl err \<Rightarrow> Inl err
                 | Inr m \<Rightarrow>
                     (let msg = ''['' @ p @ '']: '' @ m;
                          metadata = parseMetadata self opts level;
                          opts0 = Object_assign [] [(''metadata'', metadata)];
                          opts1 = (if truthy logId then obj_set ''logId'' logId opts0
                                   else opts0);
                          opts2 = (if truthy userId then obj_set ''userId'' userId opts1
                                   else opts1);
                          opts3 = (if truthy (processName self)
                                   then obj_set ''processName'' (processName self) opts2
                                   else opts2)
                      in logger_call (logger self) level (VStr msg) (Some opts3)))))"

definition doLog_v1 ::
  "ns_active \<Rightarrow> logger_obj \<Rightarrow> string \<Rightarrow> jsval \<Rightarrow> jsval \<Rightarrow> jsval + log_record" where
  "doLog_v1 ns self level message opts =
     (case doLog_try_v1 ns self level message opts of
        Inr r \<Rightarrow> Inr r
      | Inl err \<Rightarrow> logger_call (logger self) level (js_prop err ''message'') None)"

text \<open>
  Second variant: no check of the process name, no prefix; the per-call object is copied
  flat and \<open>logId\<close> is mirrored into \<open>trace_id\<close>. The \<open>catch\<close> logs the caught value itself.
\<close>

definition doLog_try_v2 ::
  "ns_active \<Rightarrow> logger_obj \<Rightarrow> string \<Rightarrow> jsval \<Rightarrow> jsval \<Rightarrow> jsval + log_record" where
  "doLog_try_v2 ns self level message opts =
     (let logId = js_or (getLogId ns) VNull;
          userId = js_or (getUserId ns) VNull
      in case to_string message of
           Inl err \<Rightarrow> Inl err
         | Inr msg \<Rightarrow>
             (let opts0 = Object_assign [] (own_fields opts);
                  opts1 = (if truthy logId
                           then obj_set ''trace_id'' logId (obj_set ''logId'' logId opts0)
                           else opts0);
                  opts2 = (if truthy userId then obj_set ''userId'' userId opts1 else opts1)
              in logger_call (logger self) level (VStr msg) (Some opts2)))"

definition doLog_v2 ::
  "ns_active \<Rightarrow> logger_obj \<Rightarrow> string \<Rightarrow> jsval \<Rightarrow> jsval \<Rightarrow> jsval + log_record" where
  "doLog_v2 ns self level message opts =
     (case doLog_try_v2 ns self level message opts of
        Inr r \<Rightarrow> Inr r
      | Inl err \<Rightarrow> logger_call (logger self) level err None)"

text \<open>Third variant: the process name is required, and \<open>logId\<close> is mirrored into \<open>trace_id\<close>.\<close>

definition doLog_try_v3 ::
  "ns_active \<Rightarrow> logger_obj \<Rightarrow> string \<Rightarrow> jsval \<Rightarrow> jsval \<Rightarrow> jsval + log_record" where
  "doLog_try_v3 ns self level message opts =
     (let logId = js_or (getLogId ns) VNull;
          userId = js_or (getUserId ns) VNull
      in if \<not> truthy (processName self)
         then Inl (new_Error ''No process name set on logger'')
         else
           (case to_string (processName self) of
              Inl err \<Rightarrow> Inl err
            | Inr p \<Rightarrow>
                (case to_string message of
                   Inl err \<Rightarrow> Inl err
                 | Inr m \<Rightarrow>
                     (let msg = ''['' @ p @ '']: '' @ m;
                          opts0 = Object_assign [] (own_fields opts);
                          opts1 = (if truthy logId
                                   then obj_set ''trace_id'' logId
                                          (obj_set ''logId'' logId opts0)
                                   else opts0);
                          opts2 = (if truthy userId then obj_set ''userId'' userId opts1
                                   else opts1);
                          opts3 = (if truthy (processName self)
                                   then obj_set ''processName'' (processName self) opts2
                                   else opts2)
                      in logger_call (logger self) level (VStr msg) (Some opts3)))))"

definition doLog_v3 ::
  "ns_active \<Rightarrow> logger_obj \<Rightarrow> string \<Rightarrow> jsval \<Rightarrow> jsval \<Rightarrow> jsval + log_record" where
  "doLog_v3 ns self level message opts =
     (case doLog_try_v3 ns self level message opts of
        Inr r \<Rightarrow> Inr r
      | Inl err \<Rightarrow> logger_call (logger self) level err None)"

section \<open>The level methods\<close>

text \<open>
  The first variant declares \<open>opts = {}\<close>: an argument left out or \<open>undefined\<close> is replaced
  by the empty object. The result of a method is the outcome of its \<open>doLog\<close> call: the
  record dispatched, or the value thrown to the caller.
\<close>

definition default_opts :: "jsval \<Rightarrow> jsval" where
  "default_opts opts = (if opts = VUndefined then VObj [] else opts)"

definition i_v1 :: "ns_active \<Rightarrow> logger_obj \<Rightarrow> jsval \<Rightarrow> jsval \<Rightarrow> jsval + log_record" where
  "i_v1 ns self message opts = doLog_v1 ns self ''info'' message (default_opts opts)"

definition e_v1 :: "ns_active \<Rightarrow> logger_obj \<Rightarrow> jsval \<Rightarrow> jsval \<Rightarrow> jsval + log_record" where
  "e_v1 ns self message opts = doLog_v1 ns self ''error'' message (default_opts opts)"

definition w_v1 :: "ns_active \<Rightarrow> logger_obj \<Rightarrow> jsval \<Rightarrow> jsval \<Rightarrow> jsval + log_record" where
  "w_v1 ns self message opts = doLog_v1 ns self ''warn'' message (default_opts opts)"

definition d_v1 :: "ns_active \<Rightarrow> logger_obj \<Rightarrow> jsval \<Rightarrow> jsval \<Rightarrow> jsval + log_record" where
  "d_v1 ns self message opts = doLog_v1 ns self ''debug'' message (default_opts opts)"

definition info_v1 :: "ns_active \<Rightarrow> logger_obj \<Rightarrow> jsval \<Rightarrow> jsval \<Rightarrow> jsval + log_record" where
  "info_v1 ns self message opts = i_v1 ns self message (default_opts opts)"

definition error_v1 :: "ns_active \<Rightarrow> logger_obj \<Rightarrow> jsval \<Rightarrow> jsval \<Rightarrow> jsval + log_record" where
  "error_v1 ns self message opts = e_v1 ns self message (default_opts opts)"

definition warn_v1 :: "ns_active \<Rightarrow> logger_obj \<Rightarrow> jsval \<Rightarrow> jsval \<Rightarrow> jsval + log_record" where
  "warn_v1 ns self message opts = w_v1 ns self message (default_opts opts)"

definition debug_v1 :: "ns_active \<Rightarrow> logger_obj \<Rightarrow> jsval \<Rightarrow> jsval \<Rightarrow> jsval + log_record" where
  "debug_v1 ns self message opts = d_v1 ns self message (default_opts opts)"

text \<open>The second and third variants pass \<open>opts\<close> on as it is.\<close>

definition i_v2 :: "ns_active \<Rightarrow> logger_obj \<Rightarrow> jsval \<Rightarrow> jsval \<Rightarrow> jsval + log_record" where
  "i_v2 ns self message opts = doLog_v2 ns self ''info'' message opts"

definition e_v2 :: "ns_active \<Rightarrow> logger_obj \<Rightarrow> jsval \<Rightarrow> jsval \<Rightarrow> jsval + log_record" where
  "e_v2 ns self message opts = doLog_v2 ns self ''error'' message opts"

definition w_v2 :: "ns_active \<Rightarrow> logger_obj \<Rightarrow> jsval \<Rightarrow> jsval \<Rightarrow> jsval + log_record" where
  "w_v2 ns self message opts = doLog_v2 ns self ''warn'' message opts"

definition d_v2 :: "ns_active \<Rightarrow> logger_obj \<Rightarrow> jsval \<Rightarrow> jsval \<Rightarrow> jsval + log_record" where
  "d_v2 ns self message opts = doLog_v2 ns self ''debug'' message opts"

definition info_v2 :: "ns_active \<Rightarrow> logger_obj \<Rightarrow> jsval \<Rightarrow> jsval \<Rightarrow> jsval + log_record" where
  "info_v2 ns self message opts = i_v2 ns self message opts"

definition error_v2 :: "ns_active \<Rightarrow> logger_obj \<Rightarrow> jsval \<Rightarrow> jsval \<Rightarrow> jsval + log_record" where
  "error_v2 ns self message opts = e_v2 ns self message opts"

definition warn_v2 :: "ns_active \<Rightarrow> logger_obj \<Rightarrow> jsval \<Rightarrow> jsval \<Rightarrow> jsval + log_record" where
  "warn_v2 ns self message opts = w_v2 ns self message opts"

definition debug_v2 :: "ns_active \<Rightarrow> logger_obj \<Rightarrow> jsval \<Rightarrow> jsval \<Rightarrow> jsval + log_record" where
  "debug_v2 ns self message opts = d_v2 ns self message opts"

definition i_v3 :: "ns_active \<Rightarrow> logger_obj \<Rightarrow> jsval \<Rightarrow> jsval \<Rightarrow> jsval + log_record" where
  "i_v3 ns self message opts = doLog_v3 ns self ''info'' message opts"

definition e_v3 :: "ns_active \<Rightarrow> logger_obj \<Rightarrow> jsval \<Rightarrow> jsval \<Rightarrow> jsval + log_record" where
  "e_v3 ns self message opts = doLog_v3 ns self ''error'' message opts"

definition w_v3 :: "ns_active \<Rightarrow> logger_obj \<Rightarrow> jsval \<Rightarrow> jsval \<Rightarrow> jsval + log_record" where
  "w_v3 ns self message opts = doLog_v3 ns self ''warn'' message opts"

definition d_v3 :: "ns_active \<Rightarrow> logger_obj \<Rightarrow> jsval \<Rightarrow> jsval \<Rightarrow> jsval + log_record" where
  "d_v3 ns self message opts = doLog_v3 ns self ''debug'' message opts"

definition info_v3 :: "ns_active \<Rightarrow> logger_obj \<Rightarrow> jsval \<Rightarrow> jsval \<Rightarrow> jsval + log_record" where
  "info_v3 ns self message opts = i_v3 ns self message opts"

definition error_v3 :: "ns_active \<Rightarrow> logger_obj \<Rightarrow> jsval \<Rightarrow> jsval \<Rightarrow> jsval + log_record" where
  "error_v3 ns self message opts = e_v3 ns self message opts"

definition warn_v3 :: "ns_active \<Rightarrow> logger_obj \<Rightarrow> jsval \<Rightarrow> jsval \<Rightarrow> jsval + log_record" where
  "warn_v3 ns self message opts = w_v3 ns self message opts"

definition debug_v3 :: "ns_active \<Rightarrow> logger_obj \<Rightarrow> jsval \<Rightarrow> jsval \<Rightarrow> jsval + log_record" where
  "debug_v3 ns self message opts = d_v3 ns self message opts"

section \<open>Reading the outcome of a construction\<close>

text \<open>The active sink set of a constructed logger; \<open>None\<close> when the constructor threw.\<close>

definition active_sinks :: "(jsval + logger_obj) \<times> world \<Rightarrow> transport list option" where
  "active_sinks res =
     (case fst res of Inl err \<Rightarrow> None | Inr self \<Rightarrow> Some (lg_transports (logger self)))"

section \<open>Objects\<close>

lemma map_of_Object_assign: "map_of (Object_assign t s) = map_of t ++ map_of s"
  by (simp add: Object_assign_def merge_conv')

lemma map_of_obj_set: "map_of (obj_set k v fs) = (map_of fs)(k \<mapsto> v)"
  by (simp add: obj_set_def update_conv')

lemma obj_get_absent: "\<not> has_key fs k \<Longrightarrow> obj_get fs k = VUndefined"
  by (simp add: has_key_def obj_get_def)

section \<open>Construction: validation\<close>

lemma buildMetadataConfig_environment:
  "obj_get (buildMetadataConfig metadata) ''environment'' = obj_get metadata ''environment''"
  by (simp add: buildMetadataConfig_def obj_get_def map_of_Object_assign map_add_def)


lemma buildMetadataConfig_v3_strings:
  assumes "to_string (obj_get metadata ''service'') = Inr s"
    and "to_string (obj_get metadata ''environment'') = Inr e"
  shows "buildMetadataConfig_v3 metadata =
           Inr (Object_assign (Object_assign [] metadata) [(''service'', VStr (s @ ''-'' @ e))])"
  using assms by (simp add: buildMetadataConfig_v3_def)

lemma validateMetadata_ok:
  "truthy (obj_get metadata ''service'') \<Longrightarrow> truthy (obj_get metadata ''environment'') \<Longrightarrow>
   validateMetadata metadata = Inr ()"
  by (simp add: validateMetadata_def)

lemma validateMetadata_fails:
  "\<not> truthy (obj_get metadata ''service'') \<or> \<not> truthy (obj_get metadata ''environment'') \<Longrightarrow>
   validateMetadata metadata = Inl (new_Error
      ''No service or environment configured when initializing the logger class.'')"
  by (auto simp add: validateMetadata_def)

text \<open>
  C4. A metadata object that lacks \<open>service\<close> or lacks \<open>environment\<close> makes the constructor
  throw the configuration error (an \<open>Error\<close> with the message below) to its caller, in each
  of the three variants. No logger object results, and the world is the one the constructor
  started in: no transport was constructed before the throw.
\<close>

theorem new_Logger_missing_service_or_environment:
  assumes "\<not> has_key metadata ''service'' \<or> \<not> has_key metadata ''environment''"
  shows "new_Logger_v1 metadata options customTransports w =
           (Inl (new_Error
              ''No service or environment configured when initializing the logger class.''), w)
       \<and> new_Logger_v2 metadata options customTransports w =
           (Inl (new_Error
              ''No service or environment configured when initializing the logger class.''), w)
       \<and> new_Logger_v3 metadata options customTransports w =
           (Inl (new_Error
              ''No service or environment configured when initializing the logger class.''), w)"
proof -
  from assms
  have "\<not> truthy (obj_get metadata ''service'') \<or> \<not> truthy (obj_get metadata ''environment'')"
    by (auto simp add: obj_get_absent)
  then have "validateMetadata metadata = Inl (new_Error
      ''No service or environment configured when initializing the logger class.'')"
    by (rule validateMetadata_fails)
  then show ?thesis
    by (simp add: new_Logger_v1_def new_Logger_v2_def new_Logger_v3_def)
qed

text \<open>The spec's example: \<open>{environment: "prod"}\<close>, no \<open>service\<close>, starting from an empty world.\<close>

theorem new_Logger_missing_service_witness:
  "\<not> has_key [(''environment'', VStr ''prod'')] ''service''
   \<and> new_Logger_v1 [(''environment'', VStr ''prod'')] VUndefined [] [] =
       (Inl (VErr ''Error''
          ''No service or environment configured when initializing the logger class.''
          ''Error: No service or environment configured when initializing the logger class.''
          None), [])"
  using new_Logger_missing_service_or_environment
          [of "[(''environment'', VStr ''prod'')]" VUndefined "[]" "[]"]
  by (simp add: has_key_def new_Error_def)

section \<open>Construction: the active sink set\<close>

text \<open>
  What each variant registers for a valid configuration. In the first two variants the
  options have no part in it: \<open>enableFileTransport\<close> and \<open>enableDatadogTransport\<close> are
  never called.
\<close>

lemma sinks_v1:
  assumes "truthy (obj_get metadata ''service'')" and "truthy (obj_get metadata ''environment'')"
  shows "active_sinks (new_Logger_v1 metadata options customTransports w) =
           Some ((if obj_get metadata ''environment'' = VStr ''test''
                  then [Stream ''/dev/null''] else [Console]) @ compact customTransports)"
    and "snd (new_Logger_v1 metadata options customTransports w) =
           w @ (if obj_get metadata ''environment'' = VStr ''test''
                then [Stream ''/dev/null''] else [Console])"
  using assms
  by (simp_all add: new_Logger_v1_def validateMetadata_ok initializeLogger_v1_def
        enableConsoleTransport_def enableDevNullTransport_def construct_def
        buildMetadataConfig_environment active_sinks_def Let_def)

lemma sinks_v2:
  assumes "truthy (obj_get metadata ''service'')" and "truthy (obj_get metadata ''environment'')"
  shows "active_sinks (new_Logger_v2 metadata options customTransports w) =
           Some ((if obj_get metadata ''environment'' = VStr ''test''
                  then [] else [Console]) @ compact customTransports)"
    and "snd (new_Logger_v2 metadata options customTransports w) =
           w @ (if obj_get metadata ''environment'' = VStr ''test'' then [] else [Console])"
  using assms
  by (simp_all add: new_Logger_v2_def validateMetadata_ok initializeLogger_v2_def
        enableConsoleTransport_def construct_def
        buildMetadataConfig_environment active_sinks_def Let_def)

lemma sinks_v3:
  assumes "truthy (obj_get metadata ''service'')" and "truthy (obj_get metadata ''environment'')"
    and "to_string (obj_get metadata ''service'') = Inr s"
    and "to_string (obj_get metadata ''environment'') = Inr e"
    and "to_string (js_prop options ''datadog_api_key'') = Inr k"
  shows "active_sinks (new_Logger_v3 metadata options customTransports w) =
           Some (ConsoleSimple #
                 (if truthy options \<and> truthy (js_prop options ''datadog_api_key'')
                  then [Http ''http-intake.logs.datadoghq.com''
                          (''/v1/input/'' @ k @ ''?ddsource=nodejs&service='' @ s @ ''-'' @ e)
                          True]
                  else []) @
                 (if truthy options \<and> truthy (js_prop options ''filename'')
                  then [File (js_prop options ''filename'')] else []) @
                 compact customTransports)"
  using assms
  by (simp add: new_Logger_v3_def validateMetadata_ok buildMetadataConfig_v3_strings
        initializeLogger_v3_def enableConsoleTransport_v3_def enableDatadogTransport_v3_def
        enableFileTransport_def datadog_path_def construct_def active_sinks_def Let_def
        obj_get_def map_of_Object_assign)

text \<open>
  The two selectors the first variant defines and never calls do implement the rules:
  a file sink iff a filename is configured, a remote sink iff an API key is configured and
  the environment is not \<open>test\<close>.
\<close>

lemma enableFileTransport_iff:
  "(fst (enableFileTransport options w) \<noteq> None) =
     (truthy options \<and> truthy (js_prop options ''filename''))"
  by (simp add: enableFileTransport_def construct_def)

lemma enableDatadogTransport_iff:
  assumes "datadog_path (js_prop options ''datadog_api_key'') (obj_get metadata ''service'') =
             Inr path"
  shows "(\<exists>t w'. enableDatadogTransport options metadata w = Inr (Some t, w')) =
           (truthy options \<and> truthy (js_prop options ''datadog_api_key'')
            \<and> obj_get metadata ''environment'' \<noteq> VStr ''test'')"
  using assms by (simp add: enableDatadogTransport_def construct_def)

text \<open>
  C5, as amended. With environment \<open>test\<close>, the first variant constructs the null sink and
  no console sink: the active set is the null sink followed by the caller's own sinks. The
  second variant constructs no sink at all there (it has no null sink); the third, unless
  a template literal of its constructor throws, registers its console sink in every
  environment, \<open>test\<close> included, then the remote and file sinks its options ask for and
  the caller's own sinks, and has no null sink.
\<close>

theorem test_environment_sinks:
  assumes "obj_get metadata ''environment'' = VStr ''test''"
    and "truthy (obj_get metadata ''service'')"
  shows "active_sinks (new_Logger_v1 metadata options customTransports w) =
           Some (Stream ''/dev/null'' # compact customTransports)
       \<and> snd (new_Logger_v1 metadata options customTransports w) = w @ [Stream ''/dev/null'']
       \<and> active_sinks (new_Logger_v2 metadata options customTransports w) =
           Some (compact customTransports)
       \<and> snd (new_Logger_v2 metadata options customTransports w) = w
       \<and> (\<forall>s k. to_string (obj_get metadata ''service'') = Inr s
               \<and> to_string (js_prop options ''datadog_api_key'') = Inr k \<longrightarrow>
             active_sinks (new_Logger_v3 metadata options customTransports w) =
               Some (ConsoleSimple #
                     (if truthy options \<and> truthy (js_prop options ''datadog_api_key'')
                      then [Http ''http-intake.logs.datadoghq.com''
                              (''/v1/input/'' @ k @ ''?ddsource=nodejs&service='' @ s @ ''-test'')
                              True]
                      else []) @
                     (if truthy options \<and> truthy (js_prop options ''filename'')
                      then [File (js_prop options ''filename'')] else []) @
                     compact customTransports))"
proof -
  from assms have env: "truthy (obj_get metadata ''environment'')" by simp
  from assms have e: "to_string (obj_get metadata ''environment'') = Inr ''test''" by simp
  have v3: "active_sinks (new_Logger_v3 metadata options customTransports w) =
               Some (ConsoleSimple #
                     (if truthy options \<and> truthy (js_prop options ''datadog_api_key'')
                      then [Http ''http-intake.logs.datadoghq.com''
                              (''/v1/input/'' @ k @ ''?ddsource=nodejs&service='' @ s @ ''-test'')
                              True]
                      else []) @
                     (if truthy options \<and> truthy (js_prop options ''filename'')
                      then [File (js_prop options ''filename'')] else []) @
                     compact customTransports)"
    if "to_string (obj_get metadata ''service'') = Inr s"
      and "to_string (js_prop options ''datadog_api_key'') = Inr k" for s k
    using sinks_v3 [OF assms(2) env that(1) e that(2), of customTransports w] by simp
  show ?thesis
    using assms sinks_v1 [OF assms(2) env] sinks_v2 [OF assms(2) env] v3
    by simp
qed

theorem test_environment_sinks_witness:
  "obj_get [(''service'', VStr ''s''), (''environment'', VStr ''test'')] ''environment'' = VStr ''test''
   \<and> truthy (obj_get [(''service'', VStr ''s''), (''environment'', VStr ''test'')] ''service'')
   \<and> active_sinks (new_Logger_v1 [(''service'', VStr ''s''), (''environment'', VStr ''test'')]
         VUndefined [] []) = Some [Stream ''/dev/null'']
   \<and> to_string (obj_get [(''service'', VStr ''s''), (''environment'', VStr ''test'')] ''service'') =
       Inr ''s''
   \<and> to_string (js_prop (VObj [(''datadog_api_key'', VStr ''k'')]) ''datadog_api_key'') = Inr ''k''
   \<and> active_sinks (new_Logger_v3 [(''service'', VStr ''s''), (''environment'', VStr ''test'')]
         (VObj [(''datadog_api_key'', VStr ''k'')]) [] []) =
       Some [ConsoleSimple,
             Http ''http-intake.logs.datadoghq.com''
               ''/v1/input/k?ddsource=nodejs&service=s-test'' True]"
  using test_environment_sinks
          [of "[(''service'', VStr ''s''), (''environment'', VStr ''test'')]" VUndefined "[]" "[]"]
        test_environment_sinks
          [of "[(''service'', VStr ''s''), (''environment'', VStr ''test'')]"
              "VObj [(''datadog_api_key'', VStr ''k'')]" "[]" "[]"]
  by (simp add: obj_get_def)

text \<open>
  C5 as stated fails on the third variant: with environment \<open>test\<close>, no options and no
  custom sinks, the active set is the console sink alone.
\<close>

theorem test_environment_console_v3:
  "active_sinks (new_Logger_v3 [(''service'', VStr ''s''), (''environment'', VStr ''test'')]
      VUndefined [] []) = Some [ConsoleSimple]"
  by (simp add: sinks_v3 [where s = "''s''" and e = "''test''" and k = "''undefined''"]
        obj_get_def)

text \<open>
  C6 at the configuration of the repository's own test script (environment \<open>dev\<close>, a
  filename, no custom sinks; the API key left out): the first variant registers the console
  sink alone. The file sink is missing.
\<close>

theorem dev_filename_sinks_v1:
  "active_sinks (new_Logger_v1
      [(''service'', VStr ''service-test''), (''environment'', VStr ''dev'')]
      (VObj [(''filename'', VStr ''./mylog.log'')]) [] []) = Some [Console]"
  by (simp add: sinks_v1 obj_get_def)

text \<open>The third variant, which calls the file selector, registers console and file.\<close>

lemma dev_filename_sinks_v3:
  assumes "obj_get metadata ''environment'' = VStr ''dev''"
    and "truthy (obj_get metadata ''service'')"
    and "truthy options" and "truthy (js_prop options ''filename'')"
    and "\<not> truthy (js_prop options ''datadog_api_key'')"
    and "to_string (obj_get metadata ''service'') = Inr s"
  shows "active_sinks (new_Logger_v3 metadata options [] w) =
           Some [ConsoleSimple, File (js_prop options ''filename'')]"
proof -
  from assms(5) obtain k where k: "to_string (js_prop options ''datadog_api_key'') = Inr k"
    by (cases "js_prop options ''datadog_api_key''") auto
  from assms(1) have env: "truthy (obj_get metadata ''environment'')"
    and e: "to_string (obj_get metadata ''environment'') = Inr ''dev''" by simp_all
  show ?thesis
    using sinks_v3 [OF assms(2) env assms(6) e k, of "[]" w] assms by simp
qed

text \<open>
  C7 with an API key configured and environment \<open>prod\<close>: the first variant registers the
  console sink alone. The remote sink is missing.
\<close>

theorem remote_key_sinks_v1:
  "active_sinks (new_Logger_v1
      [(''service'', VStr ''s''), (''environment'', VStr ''prod'')]
      (VObj [(''datadog_api_key'', VStr ''k'')]) [] []) = Some [Console]"
  by (simp add: sinks_v1 obj_get_def)

text \<open>The third variant registers the remote sink for a configured key in environment \<open>test\<close> too.\<close>

lemma remote_sink_v3_in_test:
  "active_sinks (new_Logger_v3 [(''service'', VStr ''s''), (''environment'', VStr ''test'')]
      (VObj [(''datadog_api_key'', VStr ''k'')]) [] []) =
     Some [ConsoleSimple,
           Http ''http-intake.logs.datadoghq.com''
             ''/v1/input/k?ddsource=nodejs&service=s-test'' True]"
  by (simp add: sinks_v3 [where s = "''s''" and e = "''test''" and k = "''k''"] obj_get_def)

section \<open>The backend call and the fallback\<close>

lemma logger_call_level:
  "level \<in> set winston_levels \<Longrightarrow>
   logger_call lg level message meta =
     Inr \<lparr>rec_level = level, rec_message = message,
          rec_fields = (case meta of None \<Rightarrow> defaultMeta lg
                        | Some m \<Rightarrow> Object_assign (Object_assign [] (defaultMeta lg)) m),
          rec_sinks = lg_transports lg\<rparr>"
  by (simp add: logger_call_def)

lemma facade_levels: "''info'' \<in> set winston_levels" "''error'' \<in> set winston_levels"
  "''warn'' \<in> set winston_levels" "''debug'' \<in> set winston_levels"
  by (simp_all add: winston_levels_def)

lemma doLog_v1_unset:
  assumes "\<not> truthy (processName self)" and "level \<in> set winston_levels"
  shows "doLog_v1 ns self level message opts =
           Inr \<lparr>rec_level = level, rec_message = VStr ''No process name set on logger'',
                rec_fields = defaultMeta (logger self), rec_sinks = lg_transports (logger self)\<rparr>"
  using assms by (simp add: doLog_v1_def doLog_try_v1_def new_Error_def logger_call_level)

lemma doLog_v3_unset:
  assumes "\<not> truthy (processName self)" and "level \<in> set winston_levels"
  shows "doLog_v3 ns self level message opts =
           Inr \<lparr>rec_level = level, rec_message = new_Error ''No process name set on logger'',
                rec_fields = defaultMeta (logger self), rec_sinks = lg_transports (logger self)\<rparr>"
  using assms by (simp add: doLog_v3_def doLog_try_v3_def logger_call_level)

text \<open>
  C3. While the process name is unset (\<open>undefined\<close>, or any falsy value), each level method
  of the first and of the third variant returns normally: the error thrown inside the
  \<open>try\<close> block is caught, and one record goes out at the method's own level to the logger's
  own sinks, carrying the base metadata. In the first variant its message is the caught
  error's message; in the third it is the caught error object, whose \<open>message\<close> property is
  that text.
\<close>

theorem unset_processName_fallback:
  assumes "\<not> truthy (processName self)"
  shows "(\<forall>(f, level) \<in> set [(info_v1, ''info''), (error_v1, ''error''),
                              (warn_v1, ''warn''), (debug_v1, ''debug'')].
            f ns self message opts =
              Inr \<lparr>rec_level = level, rec_message = VStr ''No process name set on logger'',
                   rec_fields = defaultMeta (logger self),
                   rec_sinks = lg_transports (logger self)\<rparr>)
       \<and> (\<forall>(f, level) \<in> set [(info_v3, ''info''), (error_v3, ''error''),
                              (warn_v3, ''warn''), (debug_v3, ''debug'')].
            f ns self message opts =
              Inr \<lparr>rec_level = level, rec_message = new_Error ''No process name set on logger'',
                   rec_fields = defaultMeta (logger self),
                   rec_sinks = lg_transports (logger self)\<rparr>
            \<and> js_prop (new_Error ''No process name set on logger'') ''message'' =
                VStr ''No process name set on logger'')"
  using assms
  by (simp add: info_v1_def error_v1_def warn_v1_def debug_v1_def
        i_v1_def e_v1_def w_v1_def d_v1_def
        info_v3_def error_v3_def warn_v3_def debug_v3_def
        i_v3_def e_v3_def w_v3_def d_v3_def
        doLog_v1_unset doLog_v3_unset facade_levels new_Error_def)

theorem unset_processName_fallback_witness:
  "\<not> truthy (processName
      \<lparr>logger = \<lparr>lg_level = VStr ''info'', exitOnError = False, lg_format = FORMAT_JSON,
                 defaultMeta = [(''environment'', VStr ''prod''), (''service'', VStr ''s'')],
                 lg_transports = [Console]\<rparr>,
       processName = VUndefined, classProcessName = VUndefined\<rparr>)
   \<and> error_v1 None
      \<lparr>logger = \<lparr>lg_level = VStr ''info'', exitOnError = False, lg_format = FORMAT_JSON,
                 defaultMeta = [(''environment'', VStr ''prod''), (''service'', VStr ''s'')],
                 lg_transports = [Console]\<rparr>,
       processName = VUndefined, classProcessName = VUndefined\<rparr>
      (VStr ''hi'') (VObj []) =
       Inr \<lparr>rec_level = ''error'', rec_message = VStr ''No process name set on logger'',
            rec_fields = [(''environment'', VStr ''prod''), (''service'', VStr ''s'')],
            rec_sinks = [Console]\<rparr>
   \<and> error_v3 None
      \<lparr>logger = \<lparr>lg_level = VStr ''info'', exitOnError = False, lg_format = FORMAT_JSON,
                 defaultMeta = [(''environment'', VStr ''prod''), (''service'', VStr ''s-prod'')],
                 lg_transports = [ConsoleSimple]\<rparr>,
       processName = VUndefined, classProcessName = VUndefined\<rparr>
      (VStr ''hi'') (VObj []) =
       Inr \<lparr>rec_level = ''error'', rec_message = VErr ''Error'' ''No process name set on logger''
                ''Error: No process name set on logger'' None,
            rec_fields = [(''environment'', VStr ''prod''), (''service'', VStr ''s-prod'')],
            rec_sinks = [ConsoleSimple]\<rparr>"
  using unset_processName_fallback
    [of "\<lparr>logger = \<lparr>lg_level = VStr ''info'', exitOnError = False, lg_format = FORMAT_JSON,
                 defaultMeta = [(''environment'', VStr ''prod''), (''service'', VStr ''s'')],
                 lg_transports = [Console]\<rparr>,
       processName = VUndefined, classProcessName = VUndefined\<rparr>" None "VStr ''hi''" "VObj []"]
    unset_processName_fallback
    [of "\<lparr>logger = \<lparr>lg_level = VStr ''info'', exitOnError = False, lg_format = FORMAT_JSON,
                 defaultMeta = [(''environment'', VStr ''prod''), (''service'', VStr ''s-prod'')],
                 lg_transports = [ConsoleSimple]\<rparr>,
       processName = VUndefined, classProcessName = VUndefined\<rparr>" None "VStr ''hi''" "VObj []"]
  by (simp add: new_Error_def)

text \<open>A name that is no level method does reach the caller as a throw, from the \<open>catch\<close> itself.\<close>

lemma doLog_v1_unknown_level:
  "level \<notin> set winston_levels \<Longrightarrow>
   doLog_v1 ns self level message opts =
     Inl (VErr ''TypeError'' ''this.logger[level] is not a function''
            ''TypeError: this.logger[level] is not a function'' None)"
  by (simp add: doLog_v1_def doLog_try_v1_def logger_call_def Let_def split: sum.splits)

section \<open>Error normalisation\<close>

lemma serializeError_error:
  "\<exists>fs. serializeError (VErr n m s c) = VObj fs \<and> obj_get fs ''message'' = VStr m
        \<and> obj_get fs ''name'' = VStr n \<and> obj_get fs ''stack'' = VStr s"
  by (simp add: obj_get_def)

lemma parseMetadata_other_level:
  "level \<noteq> ''error'' \<Longrightarrow> parseMetadata self opts level = opts"
  by (simp add: parseMetadata_def)

lemma parseMetadata_dev_lowercase:
  "obj_get (defaultMeta (logger self)) ''environment'' = VStr ''dev'' \<Longrightarrow>
   parseMetadata self opts ''error'' = serializeError opts"
  by (simp add: parseMetadata_def LOCAL_DEV_ENVIRONMENT_def)

text \<open>
  C8. At level \<open>error\<close>, the level at which the payload is normalised, and in environment
  \<open>prod\<close> (or any environment other than the marker), an error-shaped payload becomes a
  plain object exposing the error's \<open>message\<close>, \<open>name\<close> and \<open>stack\<close>; the stack is
  non-empty when the error's is. Under the marker environment \<open>LOCAL_DEV_ENVIRONMENT\<close>
  (the string \<open>DEV\<close>) the function returns its argument itself, at every level: no new
  value is built.
\<close>

theorem parseMetadata_error_normalisation:
  "(obj_get (defaultMeta (logger self)) ''environment'' \<noteq> VStr LOCAL_DEV_ENVIRONMENT \<longrightarrow>
      (\<exists>fs. parseMetadata self (VErr n m s c) ''error'' = VObj fs
          \<and> obj_get fs ''message'' = VStr m
          \<and> obj_get fs ''name'' = VStr n
          \<and> obj_get fs ''stack'' = VStr s
          \<and> (s \<noteq> [] \<longrightarrow> truthy (obj_get fs ''stack''))))
   \<and> (obj_get (defaultMeta (logger self)) ''environment'' = VStr LOCAL_DEV_ENVIRONMENT \<longrightarrow>
        parseMetadata self payload level = payload)"
proof (intro conjI impI)
  assume env: "obj_get (defaultMeta (logger self)) ''environment'' \<noteq> VStr LOCAL_DEV_ENVIRONMENT"
  then have "parseMetadata self (VErr n m s c) ''error'' = serializeError (VErr n m s c)"
    by (simp add: parseMetadata_def)
  moreover obtain fs where "serializeError (VErr n m s c) = VObj fs"
    and "obj_get fs ''message'' = VStr m" and "obj_get fs ''name'' = VStr n"
    and "obj_get fs ''stack'' = VStr s"
    using serializeError_error by blast
  ultimately show "\<exists>fs. parseMetadata self (VErr n m s c) ''error'' = VObj fs
          \<and> obj_get fs ''message'' = VStr m
          \<and> obj_get fs ''name'' = VStr n
          \<and> obj_get fs ''stack'' = VStr s
          \<and> (s \<noteq> [] \<longrightarrow> truthy (obj_get fs ''stack''))"
    by simp
next
  assume "obj_get (defaultMeta (logger self)) ''environment'' = VStr LOCAL_DEV_ENVIRONMENT"
  then show "parseMetadata self payload level = payload"
    by (simp add: parseMetadata_def)
qed

text \<open>The spec's example, \<open>new Error("boom")\<close>, under \<open>prod\<close> and under the marker.\<close>

theorem parseMetadata_boom_witness:
  "obj_get (defaultMeta (logger
      \<lparr>logger = \<lparr>lg_level = VStr ''info'', exitOnError = False, lg_format = FORMAT_JSON,
                 defaultMeta = [(''service'', VStr ''s''), (''environment'', VStr ''prod'')],
                 lg_transports = [Console]\<rparr>,
       processName = VUndefined, classProcessName = VUndefined\<rparr>)) ''environment'' \<noteq> VStr LOCAL_DEV_ENVIRONMENT
   \<and> js_prop (parseMetadata
      \<lparr>logger = \<lparr>lg_level = VStr ''info'', exitOnError = False, lg_format = FORMAT_JSON,
                 defaultMeta = [(''service'', VStr ''s''), (''environment'', VStr ''prod'')],
                 lg_transports = [Console]\<rparr>,
       processName = VUndefined, classProcessName = VUndefined\<rparr>
      (new_Error ''boom'') ''error'') ''message'' = VStr ''boom''
   \<and> js_prop (parseMetadata
      \<lparr>logger = \<lparr>lg_level = VStr ''info'', exitOnError = False, lg_format = FORMAT_JSON,
                 defaultMeta = [(''service'', VStr ''s''), (''environment'', VStr ''prod'')],
                 lg_transports = [Console]\<rparr>,
       processName = VUndefined, classProcessName = VUndefined\<rparr>
      (new_Error ''boom'') ''error'') ''stack'' = VStr ''Error: boom''
   \<and> obj_get (defaultMeta (logger
      \<lparr>logger = \<lparr>lg_level = VStr ''info'', exitOnError = False, lg_format = FORMAT_JSON,
                 defaultMeta = [(''service'', VStr ''s''), (''environment'', VStr ''DEV'')],
                 lg_transports = [Console]\<rparr>,
       processName = VUndefined, classProcessName = VUndefined\<rparr>)) ''environment'' =
       VStr LOCAL_DEV_ENVIRONMENT
   \<and> parseMetadata
      \<lparr>logger = \<lparr>lg_level = VStr ''info'', exitOnError = False, lg_format = FORMAT_JSON,
                 defaultMeta = [(''service'', VStr ''s''), (''environment'', VStr ''DEV'')],
                 lg_transports = [Console]\<rparr>,
       processName = VUndefined, classProcessName = VUndefined\<rparr>
      (new_Error ''boom'') ''error'' = new_Error ''boom''"
  using parseMetadata_error_normalisation
    [of "\<lparr>logger = \<lparr>lg_level = VStr ''info'', exitOnError = False, lg_format = FORMAT_JSON,
                 defaultMeta = [(''service'', VStr ''s''), (''environment'', VStr ''prod'')],
                 lg_transports = [Console]\<rparr>,
       processName = VUndefined, classProcessName = VUndefined\<rparr>"
        "''Error''" "''boom''" "''Error: boom''" None "new_Error ''boom''" "''error''"]
    parseMetadata_error_normalisation
    [of "\<lparr>logger = \<lparr>lg_level = VStr ''info'', exitOnError = False, lg_format = FORMAT_JSON,
                 defaultMeta = [(''service'', VStr ''s''), (''environment'', VStr ''DEV'')],
                 lg_transports = [Console]\<rparr>,
       processName = VUndefined, classProcessName = VUndefined\<rparr>"
        "''Error''" "''boom''" "''Error: boom''" None "new_Error ''boom''" "''error''"]
  by (simp add: obj_get_def LOCAL_DEV_ENVIRONMENT_def new_Error_def parseMetadata_def)

section \<open>The record of a level method\<close>



text \<open>What \<open>to_string\<close> throws is the one \<open>TypeError\<close>; a value with a string form has one.\<close>

lemma to_string_thrown:
  "to_string v = Inl err \<Longrightarrow> err = new_TypeError ''Cannot convert object to primitive value''"
  by (cases v) (auto split: if_splits)

lemma to_string_isl: "isl (to_string v) \<Longrightarrow> \<exists>err. to_string v = Inl err"
  by (cases "to_string v") auto

lemma to_string_not_isl: "\<not> isl (to_string v) \<Longrightarrow> \<exists>s. to_string v = Inr s"
  by (cases "to_string v") auto

text \<open>
  The first variant, process name set and both conversions of the template literal
  succeeding: the record and its fields.
\<close>

lemma doLog_v1_ready:
  assumes "truthy (processName self)" and "level \<in> set winston_levels"
    and "to_string (processName self) = Inr p" and "to_string message = Inr m"
  shows "\<exists>r. doLog_v1 ns self level message opts = Inr r \<and> rec_level r = level
          \<and> rec_message r = VStr (''['' @ p @ '']: '' @ m)
          \<and> rec_sinks r = lg_transports (logger self)
          \<and> map_of (rec_fields r) =
              (let logId = js_or (getLogId ns) VNull; userId = js_or (getUserId ns) VNull;
                   m0 = (map_of (defaultMeta (logger self)))
                          (''metadata'' \<mapsto> parseMetadata self opts level);
                   m1 = (if truthy logId then m0(''logId'' \<mapsto> logId) else m0);
                   m2 = (if truthy userId then m1(''userId'' \<mapsto> userId) else m1)
               in m2(''processName'' \<mapsto> processName self))"
  using assms
  by (auto simp add: doLog_v1_def doLog_try_v1_def logger_call_level Let_def
        map_of_Object_assign map_of_obj_set fun_eq_iff map_add_def split: option.splits)

text \<open>
  The first variant, process name set and one of the two conversions throwing: the
  \<open>catch\<close> logs the message of the \<open>TypeError\<close>, with the base metadata alone.
\<close>

lemma doLog_v1_thrown:
  assumes "truthy (processName self)" and "level \<in> set winston_levels"
    and "isl (to_string (processName self)) \<or> isl (to_string message)"
  shows "doLog_v1 ns self level message opts =
           Inr \<lparr>rec_level = level,
                rec_message = VStr ''Cannot convert object to primitive value'',
                rec_fields = defaultMeta (logger self),
                rec_sinks = lg_transports (logger self)\<rparr>"
proof (cases "to_string (processName self)")
  case (Inl err)
  then show ?thesis
    using assms(1,2) to_string_thrown [OF Inl]
    by (simp add: doLog_v1_def doLog_try_v1_def logger_call_level new_TypeError_def)
next
  case (Inr p)
  with assms(3) obtain err where e: "to_string message = Inl err"
    using to_string_isl by auto
  show ?thesis
    using assms(1,2) Inr e to_string_thrown [OF e]
    by (simp add: doLog_v1_def doLog_try_v1_def logger_call_level new_TypeError_def)
qed




text \<open>
  In the second variant the per-call object is merged flat over the base metadata, so an
  extra that names \<open>service\<close> replaces the base value in the record.
\<close>

lemma extra_overrides_service_v2:
  "info_v2 None
      \<lparr>logger = \<lparr>lg_level = VStr ''info'', exitOnError = False, lg_format = FORMAT_JSON,
                 defaultMeta = [(''environment'', VStr ''prod''), (''service'', VStr ''s'')],
                 lg_transports = [Console]\<rparr>,
       processName = VUndefined, classProcessName = VUndefined\<rparr>
      (VStr ''hi'') (VObj [(''service'', VStr ''evil'')]) =
       Inr \<lparr>rec_level = ''info'', rec_message = VStr ''hi'',
            rec_fields = [(''service'', VStr ''evil''), (''environment'', VStr ''prod'')],
            rec_sinks = [Console]\<rparr>"
  by (simp add: info_v2_def i_v2_def doLog_v2_def doLog_try_v2_def
        getLogId_def getUserId_def httpContext_get_def js_or_def
        Object_assign_def logger_call_def winston_levels_def Let_def)

section \<open>Correlation ids in the record\<close>

lemma getLogId_setLogId: "getLogId (setLogId v ns) = v"
  by (simp add: getLogId_def setLogId_def httpContext_get_def httpContext_set_def
        createContext_def obj_get_def map_of_obj_set split: option.splits)

lemma getUserId_setUserId: "getUserId (setUserId v ns) = v"
  by (simp add: getUserId_def setUserId_def httpContext_get_def httpContext_set_def
        createContext_def obj_get_def map_of_obj_set split: option.splits)

subsection \<open>Two flows on the one active context\<close>

text \<open>
  The first \<open>setLogId\<close> finds no active context, so \<open>createContext\<close> creates one and makes
  it the active one; the second finds that context active and writes into it. The later
  write is what every later read returns, whichever flow reads.
\<close>

lemma createContext_keeps_active: "createContext (Some c) = Some c"
  by (simp add: createContext_def)

lemma setLogId_same_context: "getLogId (setLogId b (setLogId a ns)) = b"
  by (rule getLogId_setLogId)

lemma two_writers_one_context:
  "setLogId b (setLogId a None) = Some (obj_set ''logId'' b (obj_set ''logId'' a []))"
  by (simp add: setLogId_def createContext_def httpContext_set_def)

text \<open>
  C1 on the source, with no middleware installed. Flow A calls \<open>setLogId("a1")\<close>, flow B
  calls \<open>setLogId("b1")\<close>, then A calls \<open>info("from A")\<close> and B calls \<open>info("from B")\<close>,
  on a logger of the first variant whose process name is \<open>p\<close>. Both records carry the
  \<open>logId\<close> \<open>b1\<close>: A's record shows B's id.
\<close>

theorem interleaved_flows_share_logId:
  "info_v1 (setLogId (VStr ''b1'') (setLogId (VStr ''a1'') None))
      \<lparr>logger = \<lparr>lg_level = VStr ''info'', exitOnError = False, lg_format = FORMAT_JSON,
                 defaultMeta = [(''environment'', VStr ''prod''), (''service'', VStr ''s'')],
                 lg_transports = [Console]\<rparr>,
       processName = VStr ''p'', classProcessName = VUndefined\<rparr>
      (VStr ''from A'') (VObj []) =
       Inr \<lparr>rec_level = ''info'', rec_message = VStr ''[p]: from A'',
            rec_fields = [(''service'', VStr ''s''), (''environment'', VStr ''prod''),
                 (''processName'', VStr ''p''), (''logId'', VStr ''b1''),
                 (''metadata'', VObj [])],
            rec_sinks = [Console]\<rparr>
   \<and> info_v1 (setLogId (VStr ''b1'') (setLogId (VStr ''a1'') None))
      \<lparr>logger = \<lparr>lg_level = VStr ''info'', exitOnError = False, lg_format = FORMAT_JSON,
                 defaultMeta = [(''environment'', VStr ''prod''), (''service'', VStr ''s'')],
                 lg_transports = [Console]\<rparr>,
       processName = VStr ''p'', classProcessName = VUndefined\<rparr>
      (VStr ''from B'') (VObj []) =
       Inr \<lparr>rec_level = ''info'', rec_message = VStr ''[p]: from B'',
            rec_fields = [(''service'', VStr ''s''), (''environment'', VStr ''prod''),
                 (''processName'', VStr ''p''), (''logId'', VStr ''b1''),
                 (''metadata'', VObj [])],
            rec_sinks = [Console]\<rparr>"
  by (simp add: info_v1_def i_v1_def default_opts_def doLog_v1_def doLog_try_v1_def parseMetadata_def
          getLogId_def getUserId_def setLogId_def createContext_def httpContext_set_def
          httpContext_get_def js_or_def obj_get_def obj_set_def has_key_def new_TypeError_def
          Object_assign_def logger_call_def winston_levels_def Let_def)

subsection \<open>The fields of the second and third variants\<close>

lemma doLog_v2_fields:
  assumes "level \<in> set winston_levels" and "to_string message = Inr m"
  shows "\<exists>r. doLog_v2 ns self level message opts = Inr r \<and> rec_level r = level
          \<and> rec_message r = VStr m
          \<and> rec_sinks r = lg_transports (logger self)
          \<and> map_of (rec_fields r) =
              (let logId = js_or (getLogId ns) VNull; userId = js_or (getUserId ns) VNull;
                   m0 = map_of (defaultMeta (logger self)) ++ map_of (own_fields opts);
                   m1 = (if truthy logId then m0(''logId'' \<mapsto> logId, ''trace_id'' \<mapsto> logId)
                         else m0)
               in if truthy userId then m1(''userId'' \<mapsto> userId) else m1)"
  using assms
  by (auto simp add: doLog_v2_def doLog_try_v2_def logger_call_level Let_def
        map_of_Object_assign map_of_obj_set fun_eq_iff map_add_def split: option.splits)

lemma doLog_v2_thrown:
  assumes "level \<in> set winston_levels" and "isl (to_string message)"
  shows "doLog_v2 ns self level message opts =
           Inr \<lparr>rec_level = level,
                rec_message = new_TypeError ''Cannot convert object to primitive value'',
                rec_fields = defaultMeta (logger self),
                rec_sinks = lg_transports (logger self)\<rparr>"
proof -
  from assms(2) obtain err where e: "to_string message = Inl err"
    using to_string_isl by blast
  show ?thesis
    using assms(1) e to_string_thrown [OF e]
    by (simp add: doLog_v2_def doLog_try_v2_def logger_call_level)
qed

lemma doLog_v3_ready_fields:
  assumes "level \<in> set winston_levels" and "truthy (processName self)"
    and "to_string (processName self) = Inr p" and "to_string message = Inr m"
  shows "\<exists>r. doLog_v3 ns self level message opts = Inr r \<and> rec_level r = level
          \<and> rec_message r = VStr (''['' @ p @ '']: '' @ m)
          \<and> rec_sinks r = lg_transports (logger self)
          \<and> map_of (rec_fields r) =
              (let logId = js_or (getLogId ns) VNull; userId = js_or (getUserId ns) VNull;
                   m0 = map_of (defaultMeta (logger self)) ++ map_of (own_fields opts);
                   m1 = (if truthy logId then m0(''logId'' \<mapsto> logId, ''trace_id'' \<mapsto> logId)
                         else m0);
                   m2 = (if truthy userId then m1(''userId'' \<mapsto> userId) else m1)
               in m2(''processName'' \<mapsto> processName self))"
  using assms
  by (auto simp add: doLog_v3_def doLog_try_v3_def logger_call_level Let_def
        map_of_Object_assign map_of_obj_set fun_eq_iff map_add_def split: option.splits)

lemma doLog_v3_thrown:
  assumes "truthy (processName self)" and "level \<in> set winston_levels"
    and "isl (to_string (processName self)) \<or> isl (to_string message)"
  shows "doLog_v3 ns self level message opts =
           Inr \<lparr>rec_level = level,
                rec_message = new_TypeError ''Cannot convert object to primitive value'',
                rec_fields = defaultMeta (logger self),
                rec_sinks = lg_transports (logger self)\<rparr>"
proof (cases "to_string (processName self)")
  case (Inl err)
  then show ?thesis
    using assms(1,2) to_string_thrown [OF Inl]
    by (simp add: doLog_v3_def doLog_try_v3_def logger_call_level)
next
  case (Inr p)
  with assms(3) obtain err where e: "to_string message = Inl err"
    using to_string_isl by auto
  show ?thesis
    using assms(1,2) Inr e to_string_thrown [OF e]
    by (simp add: doLog_v3_def doLog_try_v3_def logger_call_level)
qed

text \<open>The fallback of the third variant, whatever made the \<open>try\<close> block throw.\<close>

lemma doLog_v3_fallback:
  assumes "level \<in> set winston_levels"
    and "\<not> truthy (processName self) \<or> isl (to_string (processName self))
         \<or> isl (to_string message)"
  shows "\<exists>msg. doLog_v3 ns self level message opts =
           Inr \<lparr>rec_level = level, rec_message = msg,
                rec_fields = defaultMeta (logger self),
                rec_sinks = lg_transports (logger self)\<rparr>"
proof (cases "truthy (processName self)")
  case True
  with assms(2) have "isl (to_string (processName self)) \<or> isl (to_string message)" by simp
  from doLog_v3_thrown [OF True assms(1) this] show ?thesis by blast
next
  case False
  from doLog_v3_unset [OF False assms(1)] show ?thesis by blast
qed

text \<open>
  The first variant never puts \<open>trace_id\<close> into the record, and puts in \<open>logId\<close> and
  \<open>userId\<close> only where the flow's value is truthy.
\<close>

lemma doLog_v1_ids:
  assumes "level \<in> set winston_levels"
  shows "\<exists>r. doLog_v1 ns self level message opts = Inr r \<and> rec_level r = level
          \<and> (\<not> truthy (getLogId ns) \<longrightarrow>
                map_of (rec_fields r) ''logId'' = map_of (defaultMeta (logger self)) ''logId'')
          \<and> map_of (rec_fields r) ''trace_id'' = map_of (defaultMeta (logger self)) ''trace_id''
          \<and> (\<not> truthy (getUserId ns) \<longrightarrow>
                map_of (rec_fields r) ''userId'' = map_of (defaultMeta (logger self)) ''userId'')"
proof (cases "truthy (processName self) \<and> \<not> isl (to_string (processName self))
                \<and> \<not> isl (to_string message)")
  case True
  then obtain p m where p: "to_string (processName self) = Inr p"
    and m: "to_string message = Inr m"
    using to_string_not_isl by blast
  from True have t: "truthy (processName self)" by simp
  from doLog_v1_ready [OF t assms p m, of ns opts] show ?thesis
    by (auto simp add: Let_def js_or_def)
next
  case False
  show ?thesis
  proof (cases "truthy (processName self)")
    case True
    with False have "isl (to_string (processName self)) \<or> isl (to_string message)" by simp
    from doLog_v1_thrown [OF True assms this] show ?thesis by simp
  next
    case False
    then show ?thesis by (simp add: doLog_v1_unset assms)
  qed
qed

text \<open>The second variant has no check of the process name: its level methods never throw.\<close>

lemma doLog_v2_returns:
  "level \<in> set winston_levels \<Longrightarrow> \<exists>r. doLog_v2 ns self level message opts = Inr r"
proof (cases "to_string message")
  case (Inl err)
  assume "level \<in> set winston_levels"
  from doLog_v2_thrown [OF this, of message ns self opts] Inl show ?thesis by simp
next
  case (Inr m)
  assume "level \<in> set winston_levels"
  from doLog_v2_fields [OF this Inr, of ns self opts] show ?thesis by blast
qed

subsection \<open>The alias\<close>

text \<open>
  C9, as amended. While the flow's \<open>logId\<close> is truthy, every level method of the second
  and of the third variant returns normally with a record at its own level. In the second
  variant the record's \<open>trace_id\<close> and \<open>logId\<close> both equal the flow's \<open>logId\<close> whenever the
  message has a string form; in the third whenever, besides, the process name is set and
  has a string form. In every other case the record is the fallback, whose fields are the
  base metadata alone: the \<open>catch\<close> adds no \<open>trace_id\<close>.
\<close>

theorem trace_id_mirrors_logId:
  assumes "truthy (getLogId ns)"
  shows "(\<forall>(f, level) \<in> set [(info_v2, ''info''), (error_v2, ''error''),
                              (warn_v2, ''warn''), (debug_v2, ''debug'')].
            \<exists>r. f ns self message opts = Inr r \<and> rec_level r = level
              \<and> (\<not> isl (to_string message) \<longrightarrow>
                    map_of (rec_fields r) ''trace_id'' = Some (getLogId ns)
                    \<and> map_of (rec_fields r) ''logId'' = Some (getLogId ns))
              \<and> (isl (to_string message) \<longrightarrow> rec_fields r = defaultMeta (logger self)))
       \<and> (\<forall>(f, level) \<in> set [(info_v3, ''info''), (error_v3, ''error''),
                              (warn_v3, ''warn''), (debug_v3, ''debug'')].
            \<exists>r. f ns self message opts = Inr r \<and> rec_level r = level
              \<and> (truthy (processName self) \<and> \<not> isl (to_string (processName self))
                    \<and> \<not> isl (to_string message) \<longrightarrow>
                    map_of (rec_fields r) ''trace_id'' = Some (getLogId ns)
                    \<and> map_of (rec_fields r) ''logId'' = Some (getLogId ns))
              \<and> (\<not> truthy (processName self) \<or> isl (to_string (processName self))
                    \<or> isl (to_string message) \<longrightarrow>
                    rec_fields r = defaultMeta (logger self)))"
proof -
  let ?ready3 = "truthy (processName self) \<and> \<not> isl (to_string (processName self))
                    \<and> \<not> isl (to_string message)"
  let ?ok2 = "\<lambda>res level. \<exists>r. res = Inr r \<and> rec_level r = level
              \<and> (\<not> isl (to_string message) \<longrightarrow>
                    map_of (rec_fields r) ''trace_id'' = Some (getLogId ns)
                    \<and> map_of (rec_fields r) ''logId'' = Some (getLogId ns))
              \<and> (isl (to_string message) \<longrightarrow> rec_fields r = defaultMeta (logger self))"
  let ?ok3 = "\<lambda>res level. \<exists>r. res = Inr r \<and> rec_level r = level
              \<and> (?ready3 \<longrightarrow>
                    map_of (rec_fields r) ''trace_id'' = Some (getLogId ns)
                    \<and> map_of (rec_fields r) ''logId'' = Some (getLogId ns))
              \<and> (\<not> ?ready3 \<longrightarrow> rec_fields r = defaultMeta (logger self))"
  have v2: "?ok2 (doLog_v2 ns self level message opts) level"
    if lv: "level \<in> set winston_levels" for level
  proof (cases "to_string message")
    case (Inl err)
    then have "isl (to_string message)" by simp
    from doLog_v2_thrown [OF lv this, of ns self opts] this show ?thesis by simp
  next
    case (Inr m)
    from doLog_v2_fields [OF lv Inr, of ns self opts] assms Inr show ?thesis
      by (auto simp add: Let_def js_or_def)
  qed
  have v3: "?ok3 (doLog_v3 ns self level message opts) level"
    if lv: "level \<in> set winston_levels" for level
  proof (cases ?ready3)
    case True
    then obtain p m where p: "to_string (processName self) = Inr p"
      and m: "to_string message = Inr m"
      using to_string_not_isl by blast
    from True have t: "truthy (processName self)" by simp
    from doLog_v3_ready_fields [OF lv t p m, of ns opts] assms True show ?thesis
      by (auto simp add: Let_def js_or_def)
  next
    case False
    then have "\<not> truthy (processName self) \<or> isl (to_string (processName self))
         \<or> isl (to_string message)" by simp
    from doLog_v3_fallback [OF lv this, of ns opts] False show ?thesis by auto
  qed
  have a2: "?ok2 (info_v2 ns self message opts) ''info''"
    unfolding info_v2_def i_v2_def by (rule v2 [OF facade_levels(1)])
  have b2: "?ok2 (error_v2 ns self message opts) ''error''"
    unfolding error_v2_def e_v2_def by (rule v2 [OF facade_levels(2)])
  have c2: "?ok2 (warn_v2 ns self message opts) ''warn''"
    unfolding warn_v2_def w_v2_def by (rule v2 [OF facade_levels(3)])
  have d2: "?ok2 (debug_v2 ns self message opts) ''debug''"
    unfolding debug_v2_def d_v2_def by (rule v2 [OF facade_levels(4)])
  have a3: "?ok3 (info_v3 ns self message opts) ''info''"
    unfolding info_v3_def i_v3_def by (rule v3 [OF facade_levels(1)])
  have b3: "?ok3 (error_v3 ns self message opts) ''error''"
    unfolding error_v3_def e_v3_def by (rule v3 [OF facade_levels(2)])
  have c3: "?ok3 (warn_v3 ns self message opts) ''warn''"
    unfolding warn_v3_def w_v3_def by (rule v3 [OF facade_levels(3)])
  have d3: "?ok3 (debug_v3 ns self message opts) ''debug''"
    unfolding debug_v3_def d_v3_def by (rule v3 [OF facade_levels(4)])
  have all2: "\<forall>(f, level) \<in> set [(info_v2, ''info''), (error_v2, ''error''),
                              (warn_v2, ''warn''), (debug_v2, ''debug'')].
                ?ok2 (f ns self message opts) level"
    using a2 b2 c2 d2 by simp
  have all3: "\<forall>(f, level) \<in> set [(info_v3, ''info''), (error_v3, ''error''),
                              (warn_v3, ''warn''), (debug_v3, ''debug'')].
                ?ok3 (f ns self message opts) level"
    using a3 b3 c3 d3 by simp
  show ?thesis
    using all2 all3 by (simp only: de_Morgan_conj not_not)
qed

text \<open>
  The flow's \<open>logId\<close> is \<open>a1\<close>: \<open>info\<close> of the second variant, \<open>info\<close> of the third with
  the process name \<open>p\<close>, and \<open>info\<close> of the second with a message that has no string form.
\<close>

theorem trace_id_mirrors_logId_witness:
  "truthy (getLogId (setLogId (VStr ''a1'') None))
   \<and> info_v2 (setLogId (VStr ''a1'') None)
      \<lparr>logger = \<lparr>lg_level = VStr ''info'', exitOnError = False, lg_format = FORMAT_JSON,
                 defaultMeta = [(''environment'', VStr ''prod''), (''service'', VStr ''s'')],
                 lg_transports = [Console]\<rparr>,
       processName = VUndefined, classProcessName = VUndefined\<rparr>
      (VStr ''hi'') (VObj [(''a'', VStr ''1'')]) =
       Inr \<lparr>rec_level = ''info'', rec_message = VStr ''hi'',
            rec_fields = [(''service'', VStr ''s''), (''environment'', VStr ''prod''),
                 (''trace_id'', VStr ''a1''), (''logId'', VStr ''a1''), (''a'', VStr ''1'')],
            rec_sinks = [Console]\<rparr>
   \<and> info_v3 (setLogId (VStr ''a1'') None)
      \<lparr>logger = \<lparr>lg_level = VStr ''info'', exitOnError = False, lg_format = FORMAT_JSON,
                 defaultMeta = [(''environment'', VStr ''prod''), (''service'', VStr ''s-prod'')],
                 lg_transports = [ConsoleSimple]\<rparr>,
       processName = VStr ''p'', classProcessName = VUndefined\<rparr>
      (VStr ''hi'') (VObj []) =
       Inr \<lparr>rec_level = ''info'', rec_message = VStr ''[p]: hi'',
            rec_fields = [(''service'', VStr ''s-prod''), (''environment'', VStr ''prod''),
                 (''processName'', VStr ''p''), (''trace_id'', VStr ''a1''),
                 (''logId'', VStr ''a1'')],
            rec_sinks = [ConsoleSimple]\<rparr>
   \<and> info_v2 (setLogId (VStr ''a1'') None)
      \<lparr>logger = \<lparr>lg_level = VStr ''info'', exitOnError = False, lg_format = FORMAT_JSON,
                 defaultMeta = [(''environment'', VStr ''prod''), (''service'', VStr ''s'')],
                 lg_transports = [Console]\<rparr>,
       processName = VUndefined, classProcessName = VUndefined\<rparr>
      (VObj [(''toString'', VStr ''x'')]) (VObj [(''a'', VStr ''1'')]) =
       Inr \<lparr>rec_level = ''info'', rec_message = VErr ''TypeError'' ''Cannot convert object to primitive value''
                ''TypeError: Cannot convert object to primitive value'' None,
            rec_fields = [(''environment'', VStr ''prod''), (''service'', VStr ''s'')],
            rec_sinks = [Console]\<rparr>"
proof -
  have h: "truthy (getLogId (setLogId (VStr ''a1'') None))"
    by (simp add: getLogId_setLogId)
  have e1: "info_v2 (setLogId (VStr ''a1'') None)
      \<lparr>logger = \<lparr>lg_level = VStr ''info'', exitOnError = False, lg_format = FORMAT_JSON,
                 defaultMeta = [(''environment'', VStr ''prod''), (''service'', VStr ''s'')],
                 lg_transports = [Console]\<rparr>,
       processName = VUndefined, classProcessName = VUndefined\<rparr>
      (VStr ''hi'') (VObj [(''a'', VStr ''1'')]) =
       Inr \<lparr>rec_level = ''info'', rec_message = VStr ''hi'',
            rec_fields = [(''service'', VStr ''s''), (''environment'', VStr ''prod''),
                 (''trace_id'', VStr ''a1''), (''logId'', VStr ''a1''), (''a'', VStr ''1'')],
            rec_sinks = [Console]\<rparr>"
    by (simp add: info_v2_def i_v2_def doLog_v2_def doLog_try_v2_def
          getLogId_def getUserId_def setLogId_def createContext_def httpContext_set_def
          httpContext_get_def js_or_def obj_get_def obj_set_def has_key_def new_TypeError_def
          Object_assign_def logger_call_def winston_levels_def Let_def)
  have e2: "info_v3 (setLogId (VStr ''a1'') None)
      \<lparr>logger = \<lparr>lg_level = VStr ''info'', exitOnError = False, lg_format = FORMAT_JSON,
                 defaultMeta = [(''environment'', VStr ''prod''), (''service'', VStr ''s-prod'')],
                 lg_transports = [ConsoleSimple]\<rparr>,
       processName = VStr ''p'', classProcessName = VUndefined\<rparr>
      (VStr ''hi'') (VObj []) =
       Inr \<lparr>rec_level = ''info'', rec_message = VStr ''[p]: hi'',
            rec_fields = [(''service'', VStr ''s-prod''), (''environment'', VStr ''prod''),
                 (''processName'', VStr ''p''), (''trace_id'', VStr ''a1''),
                 (''logId'', VStr ''a1'')],
            rec_sinks = [ConsoleSimple]\<rparr>"
    by (simp add: info_v3_def i_v3_def doLog_v3_def doLog_try_v3_def
          getLogId_def getUserId_def setLogId_def createContext_def httpContext_set_def
          httpContext_get_def js_or_def obj_get_def obj_set_def has_key_def new_TypeError_def new_Error_def
          Object_assign_def logger_call_def winston_levels_def Let_def)
  have e3: "info_v2 (setLogId (VStr ''a1'') None)
      \<lparr>logger = \<lparr>lg_level = VStr ''info'', exitOnError = False, lg_format = FORMAT_JSON,
                 defaultMeta = [(''environment'', VStr ''prod''), (''service'', VStr ''s'')],
                 lg_transports = [Console]\<rparr>,
       processName = VUndefined, classProcessName = VUndefined\<rparr>
      (VObj [(''toString'', VStr ''x'')]) (VObj [(''a'', VStr ''1'')]) =
       Inr \<lparr>rec_level = ''info'', rec_message = VErr ''TypeError'' ''Cannot convert object to primitive value''
                ''TypeError: Cannot convert object to primitive value'' None,
            rec_fields = [(''environment'', VStr ''prod''), (''service'', VStr ''s'')],
            rec_sinks = [Console]\<rparr>"
    by (simp add: info_v2_def i_v2_def doLog_v2_def doLog_try_v2_def
          getLogId_def getUserId_def setLogId_def createContext_def httpContext_set_def
          httpContext_get_def js_or_def obj_get_def obj_set_def has_key_def new_TypeError_def
          Object_assign_def logger_call_def winston_levels_def Let_def)
  show ?thesis
    using trace_id_mirrors_logId [OF h, of "\<lparr>logger = \<lparr>lg_level = VStr ''info'', exitOnError = False, lg_format = FORMAT_JSON,
                 defaultMeta = [(''environment'', VStr ''prod''), (''service'', VStr ''s'')],
                 lg_transports = [Console]\<rparr>,
       processName = VUndefined, classProcessName = VUndefined\<rparr>" "VStr ''hi''" "VObj [(''a'', VStr ''1'')]"]
      trace_id_mirrors_logId [OF h, of "\<lparr>logger = \<lparr>lg_level = VStr ''info'', exitOnError = False, lg_format = FORMAT_JSON,
                 defaultMeta = [(''environment'', VStr ''prod''), (''service'', VStr ''s-prod'')],
                 lg_transports = [ConsoleSimple]\<rparr>,
       processName = VStr ''p'', classProcessName = VUndefined\<rparr>" "VStr ''hi''" "VObj []"]
    by (intro conjI h e1 e2 e3)
qed

text \<open>
  C9 as stated fails on the third variant while the process name is unset: the flow's
  \<open>logId\<close> is \<open>a1\<close>, and the record dispatched is the fallback, with no \<open>trace_id\<close>.
\<close>

theorem trace_id_missing_v3:
  "getLogId (setLogId (VStr ''a1'') None) = VStr ''a1''
   \<and> info_v3 (setLogId (VStr ''a1'') None)
      \<lparr>logger = \<lparr>lg_level = VStr ''info'', exitOnError = False, lg_format = FORMAT_JSON,
                 defaultMeta = [(''environment'', VStr ''prod''), (''service'', VStr ''s-prod'')],
                 lg_transports = [ConsoleSimple]\<rparr>,
       processName = VUndefined, classProcessName = VUndefined\<rparr>
      (VStr ''hi'') (VObj []) =
       Inr \<lparr>rec_level = ''info'', rec_message = VErr ''Error'' ''No process name set on logger''
                ''Error: No process name set on logger'' None,
            rec_fields = [(''environment'', VStr ''prod''), (''service'', VStr ''s-prod'')],
            rec_sinks = [ConsoleSimple]\<rparr>"
  by (simp add: info_v3_def i_v3_def doLog_v3_def doLog_try_v3_def
          getLogId_def getUserId_def setLogId_def createContext_def httpContext_set_def
          httpContext_get_def js_or_def obj_get_def obj_set_def has_key_def new_TypeError_def new_Error_def
          Object_assign_def logger_call_def winston_levels_def Let_def)

subsection \<open>Falsy ids\<close>

text \<open>
  C10, as amended. While the flow's \<open>logId\<close> is falsy (absent, or the empty string that
  \<open>setLogId("")\<close> stores), no level method adds \<open>logId\<close> or \<open>trace_id\<close> to the record:
  in the first variant the record's two fields are whatever the base metadata holds under
  those keys; in the second they are whatever the base metadata overlaid with the per-call
  object holds, or, when the message has no string form and the fallback goes out, what
  the base metadata alone holds. Hence the record has no such field when neither supplies
  one. The same holds of \<open>userId\<close> while the flow's \<open>userId\<close> is falsy.
\<close>

theorem falsy_ids_not_injected:
  "(\<not> truthy (getLogId ns) \<longrightarrow>
      (\<forall>(f, level) \<in> set [(info_v1, ''info''), (error_v1, ''error''),
                            (warn_v1, ''warn''), (debug_v1, ''debug'')].
         \<exists>r. f ns self message opts = Inr r \<and> rec_level r = level
           \<and> map_of (rec_fields r) ''logId'' = map_of (defaultMeta (logger self)) ''logId''
           \<and> map_of (rec_fields r) ''trace_id'' =
               map_of (defaultMeta (logger self)) ''trace_id'')
    \<and> (\<forall>(f, level) \<in> set [(info_v2, ''info''), (error_v2, ''error''),
                            (warn_v2, ''warn''), (debug_v2, ''debug'')].
         \<exists>r. f ns self message opts = Inr r \<and> rec_level r = level
           \<and> map_of (rec_fields r) ''logId'' =
               (if isl (to_string message) then map_of (defaultMeta (logger self))
                else map_of (defaultMeta (logger self)) ++ map_of (own_fields opts)) ''logId''
           \<and> map_of (rec_fields r) ''trace_id'' =
               (if isl (to_string message) then map_of (defaultMeta (logger self))
                else map_of (defaultMeta (logger self)) ++ map_of (own_fields opts))
                 ''trace_id''))
   \<and> (\<not> truthy (getUserId ns) \<longrightarrow>
      (\<forall>(f, level) \<in> set [(info_v1, ''info''), (error_v1, ''error''),
                            (warn_v1, ''warn''), (debug_v1, ''debug'')].
         \<exists>r. f ns self message opts = Inr r \<and> rec_level r = level
           \<and> map_of (rec_fields r) ''userId'' = map_of (defaultMeta (logger self)) ''userId'')
    \<and> (\<forall>(f, level) \<in> set [(info_v2, ''info''), (error_v2, ''error''),
                            (warn_v2, ''warn''), (debug_v2, ''debug'')].
         \<exists>r. f ns self message opts = Inr r \<and> rec_level r = level
           \<and> map_of (rec_fields r) ''userId'' =
               (if isl (to_string message) then map_of (defaultMeta (logger self))
                else map_of (defaultMeta (logger self)) ++ map_of (own_fields opts))
                 ''userId''))
   \<and> \<not> truthy (getLogId (setLogId (VStr []) ns0))
   \<and> \<not> truthy (getUserId (setUserId (VStr []) ns0))"
proof -
  let ?base = "map_of (defaultMeta (logger self))"
  let ?flat = "if isl (to_string message) then map_of (defaultMeta (logger self))
                else map_of (defaultMeta (logger self)) ++ map_of (own_fields opts)"
  let ?okL = "\<lambda>m res level. \<exists>r. res = Inr r \<and> rec_level r = level
               \<and> map_of (rec_fields r) ''logId'' = m ''logId''
               \<and> map_of (rec_fields r) ''trace_id'' = m ''trace_id''"
  let ?ok = "\<lambda>m k res level. \<exists>r. res = Inr r \<and> rec_level r = level
               \<and> map_of (rec_fields r) k = m k"
  let ?o1 = "default_opts (default_opts opts)"
  have v1_log: "?okL ?base (doLog_v1 ns self level message ?o1) level"
    if "level \<in> set winston_levels" and "\<not> truthy (getLogId ns)" for level
    using doLog_v1_ids [OF that(1), of ns self message ?o1] that(2) by auto
  have v1_user: "?ok ?base ''userId'' (doLog_v1 ns self level message ?o1) level"
    if "level \<in> set winston_levels" and "\<not> truthy (getUserId ns)" for level
    using doLog_v1_ids [OF that(1), of ns self message ?o1] that(2) by auto
  have v2_log: "?okL (?flat) (doLog_v2 ns self level message opts) level"
    if lv: "level \<in> set winston_levels" and f: "\<not> truthy (getLogId ns)" for level
  proof (cases "to_string message")
    case (Inl err)
    then have "isl (to_string message)" by simp
    from doLog_v2_thrown [OF lv this, of ns self opts] this show ?thesis by simp
  next
    case (Inr m)
    from doLog_v2_fields [OF lv Inr, of ns self opts] f Inr show ?thesis
      by (auto simp add: Let_def js_or_def)
  qed
  have v2_user: "?ok (?flat) ''userId'' (doLog_v2 ns self level message opts) level"
    if lv: "level \<in> set winston_levels" and f: "\<not> truthy (getUserId ns)" for level
  proof (cases "to_string message")
    case (Inl err)
    then have "isl (to_string message)" by simp
    from doLog_v2_thrown [OF lv this, of ns self opts] this show ?thesis by simp
  next
    case (Inr m)
    from doLog_v2_fields [OF lv Inr, of ns self opts] f Inr show ?thesis
      by (auto simp add: Let_def js_or_def)
  qed
  have m1: "\<forall>(f, level) \<in> set [(info_v1, ''info''), (error_v1, ''error''),
                            (warn_v1, ''warn''), (debug_v1, ''debug'')].
         \<exists>r. f ns self message opts = Inr r \<and> rec_level r = level
           \<and> map_of (rec_fields r) ''logId'' = ?base ''logId''
           \<and> map_of (rec_fields r) ''trace_id'' = ?base ''trace_id''"
    if "\<not> truthy (getLogId ns)"
    using v1_log [OF facade_levels(1) that] v1_log [OF facade_levels(2) that]
          v1_log [OF facade_levels(3) that] v1_log [OF facade_levels(4) that]
    by (simp add: info_v1_def error_v1_def warn_v1_def debug_v1_def
          i_v1_def e_v1_def w_v1_def d_v1_def)
  have m2: "\<forall>(f, level) \<in> set [(info_v2, ''info''), (error_v2, ''error''),
                            (warn_v2, ''warn''), (debug_v2, ''debug'')].
         \<exists>r. f ns self message opts = Inr r \<and> rec_level r = level
           \<and> map_of (rec_fields r) ''logId'' = (?flat) ''logId''
           \<and> map_of (rec_fields r) ''trace_id'' = (?flat) ''trace_id''"
    if "\<not> truthy (getLogId ns)"
    using v2_log [OF facade_levels(1) that] v2_log [OF facade_levels(2) that]
          v2_log [OF facade_levels(3) that] v2_log [OF facade_levels(4) that]
    unfolding info_v2_def error_v2_def warn_v2_def debug_v2_def
          i_v2_def e_v2_def w_v2_def d_v2_def
    by simp
  have u1: "\<forall>(f, level) \<in> set [(info_v1, ''info''), (error_v1, ''error''),
                            (warn_v1, ''warn''), (debug_v1, ''debug'')].
         \<exists>r. f ns self message opts = Inr r \<and> rec_level r = level
           \<and> map_of (rec_fields r) ''userId'' = ?base ''userId''"
    if "\<not> truthy (getUserId ns)"
    using v1_user [OF facade_levels(1) that] v1_user [OF facade_levels(2) that]
          v1_user [OF facade_levels(3) that] v1_user [OF facade_levels(4) that]
    by (simp add: info_v1_def error_v1_def warn_v1_def debug_v1_def
          i_v1_def e_v1_def w_v1_def d_v1_def)
  have u2: "\<forall>(f, level) \<in> set [(info_v2, ''info''), (error_v2, ''error''),
                            (warn_v2, ''warn''), (debug_v2, ''debug'')].
         \<exists>r. f ns self message opts = Inr r \<and> rec_level r = level
           \<and> map_of (rec_fields r) ''userId'' = (?flat) ''userId''"
    if "\<not> truthy (getUserId ns)"
    using v2_user [OF facade_levels(1) that] v2_user [OF facade_levels(2) that]
          v2_user [OF facade_levels(3) that] v2_user [OF facade_levels(4) that]
    unfolding info_v2_def error_v2_def warn_v2_def debug_v2_def
          i_v2_def e_v2_def w_v2_def d_v2_def
    by simp
  have e1: "\<not> truthy (getLogId (setLogId (VStr []) ns0))"
    by (simp add: getLogId_setLogId)
  have e2: "\<not> truthy (getUserId (setUserId (VStr []) ns0))"
    by (simp add: getUserId_setUserId)
  show ?thesis
    by (intro conjI impI m1 m2 u1 u2 e1 e2) assumption+
qed

text \<open>
  \<open>setLogId("")\<close> on a fresh store, then \<open>info\<close> of the second variant: with an ordinary
  message, and with a message that has no string form while the caller names \<open>logId\<close>.
\<close>

theorem falsy_ids_not_injected_witness:
  "\<not> truthy (getLogId (setLogId (VStr []) None))
   \<and> \<not> truthy (getUserId (setLogId (VStr []) None))
   \<and> info_v2 (setLogId (VStr []) None)
      \<lparr>logger = \<lparr>lg_level = VStr ''info'', exitOnError = False, lg_format = FORMAT_JSON,
                 defaultMeta = [(''environment'', VStr ''prod''), (''service'', VStr ''s'')],
                 lg_transports = [Console]\<rparr>,
       processName = VUndefined, classProcessName = VUndefined\<rparr>
      (VStr ''hi'') (VObj [(''a'', VStr ''1'')]) =
       Inr \<lparr>rec_level = ''info'', rec_message = VStr ''hi'',
            rec_fields = [(''service'', VStr ''s''), (''environment'', VStr ''prod''),
                 (''a'', VStr ''1'')],
            rec_sinks = [Console]\<rparr>
   \<and> info_v2 (setLogId (VStr []) None)
      \<lparr>logger = \<lparr>lg_level = VStr ''info'', exitOnError = False, lg_format = FORMAT_JSON,
                 defaultMeta = [(''environment'', VStr ''prod''), (''service'', VStr ''s'')],
                 lg_transports = [Console]\<rparr>,
       processName = VUndefined, classProcessName = VUndefined\<rparr>
      (VObj [(''toString'', VStr ''x'')]) (VObj [(''logId'', VStr ''x'')]) =
       Inr \<lparr>rec_level = ''info'', rec_message = VErr ''TypeError'' ''Cannot convert object to primitive value''
                ''TypeError: Cannot convert object to primitive value'' None,
            rec_fields = [(''environment'', VStr ''prod''), (''service'', VStr ''s'')],
            rec_sinks = [Console]\<rparr>"
proof -
  have h1: "\<not> truthy (getLogId (setLogId (VStr []) None))"
    by (simp add: getLogId_setLogId)
  have h2: "\<not> truthy (getUserId (setLogId (VStr []) None))"
    by (simp add: getUserId_def setLogId_def createContext_def httpContext_set_def
          httpContext_get_def obj_get_def obj_set_def)
  have e1: "info_v2 (setLogId (VStr []) None)
      \<lparr>logger = \<lparr>lg_level = VStr ''info'', exitOnError = False, lg_format = FORMAT_JSON,
                 defaultMeta = [(''environment'', VStr ''prod''), (''service'', VStr ''s'')],
                 lg_transports = [Console]\<rparr>,
       processName = VUndefined, classProcessName = VUndefined\<rparr>
      (VStr ''hi'') (VObj [(''a'', VStr ''1'')]) =
       Inr \<lparr>rec_level = ''info'', rec_message = VStr ''hi'',
            rec_fields = [(''service'', VStr ''s''), (''environment'', VStr ''prod''),
                 (''a'', VStr ''1'')],
            rec_sinks = [Console]\<rparr>"
    by (simp add: info_v2_def i_v2_def doLog_v2_def doLog_try_v2_def
          getLogId_def getUserId_def setLogId_def createContext_def httpContext_set_def
          httpContext_get_def js_or_def obj_get_def obj_set_def has_key_def new_TypeError_def
          Object_assign_def logger_call_def winston_levels_def Let_def)
  have e2: "info_v2 (setLogId (VStr []) None)
      \<lparr>logger = \<lparr>lg_level = VStr ''info'', exitOnError = False, lg_format = FORMAT_JSON,
                 defaultMeta = [(''environment'', VStr ''prod''), (''service'', VStr ''s'')],
                 lg_transports = [Console]\<rparr>,
       processName = VUndefined, classProcessName = VUndefined\<rparr>
      (VObj [(''toString'', VStr ''x'')]) (VObj [(''logId'', VStr ''x'')]) =
       Inr \<lparr>rec_level = ''info'', rec_message = VErr ''TypeError'' ''Cannot convert object to primitive value''
                ''TypeError: Cannot convert object to primitive value'' None,
            rec_fields = [(''environment'', VStr ''prod''), (''service'', VStr ''s'')],
            rec_sinks = [Console]\<rparr>"
    by (simp add: info_v2_def i_v2_def doLog_v2_def doLog_try_v2_def
          getLogId_def getUserId_def setLogId_def createContext_def httpContext_set_def
          httpContext_get_def js_or_def obj_get_def obj_set_def has_key_def new_TypeError_def
          Object_assign_def logger_call_def winston_levels_def Let_def)
  show ?thesis
    using falsy_ids_not_injected
      [of "setLogId (VStr []) None" "\<lparr>logger = \<lparr>lg_level = VStr ''info'', exitOnError = False, lg_format = FORMAT_JSON,
                 defaultMeta = [(''environment'', VStr ''prod''), (''service'', VStr ''s'')],
                 lg_transports = [Console]\<rparr>,
       processName = VUndefined, classProcessName = VUndefined\<rparr>" "VStr ''hi''" "VObj [(''a'', VStr ''1'')]" None]
    by (intro conjI h1 h2 e1 e2)
qed

text \<open>
  C10 as stated fails where the caller supplies the key: with no flow context at all, the
  second variant's record still has a \<open>logId\<close> field, the one of the per-call object.
\<close>

theorem caller_logId_in_record_v2:
  "getLogId None = VUndefined
   \<and> info_v2 None
      \<lparr>logger = \<lparr>lg_level = VStr ''info'', exitOnError = False, lg_format = FORMAT_JSON,
                 defaultMeta = [(''environment'', VStr ''prod''), (''service'', VStr ''s'')],
                 lg_transports = [Console]\<rparr>,
       processName = VUndefined, classProcessName = VUndefined\<rparr>
      (VStr ''hi'') (VObj [(''logId'', VStr ''x'')]) =
       Inr \<lparr>rec_level = ''info'', rec_message = VStr ''hi'',
            rec_fields = [(''service'', VStr ''s''), (''environment'', VStr ''prod''),
                 (''logId'', VStr ''x'')],
            rec_sinks = [Console]\<rparr>"
  by (simp add: info_v2_def i_v2_def doLog_v2_def doLog_try_v2_def
          getLogId_def getUserId_def setLogId_def createContext_def httpContext_set_def
          httpContext_get_def js_or_def obj_get_def obj_set_def has_key_def new_TypeError_def
          Object_assign_def logger_call_def winston_levels_def Let_def)

end
